theory Spec2Isabelle
  imports Main
begin

section \<open>JavaScript values used by the quiz runner\<close>

text \<open>
  A JavaScript number as the runner and the timer use it: a whole number of
  milliseconds, minutes or seconds, or \<open>NaN\<close> (the time value of an invalid
  \<open>Date\<close>, the result of \<open>Number\<close> on a non-numeric value). Arithmetic with
  \<open>NaN\<close> yields \<open>NaN\<close> and every comparison with \<open>NaN\<close> is false.
\<close>

datatype jsnum = Fin int | NaN

fun js_add :: "jsnum \<Rightarrow> jsnum \<Rightarrow> jsnum" where
  "js_add (Fin a) (Fin b) = Fin (a + b)"
| "js_add _ _ = NaN"

fun js_sub :: "jsnum \<Rightarrow> jsnum \<Rightarrow> jsnum" where
  "js_sub (Fin a) (Fin b) = Fin (a - b)"
| "js_sub _ _ = NaN"

fun js_mul :: "jsnum \<Rightarrow> jsnum \<Rightarrow> jsnum" where
  "js_mul (Fin a) (Fin b) = Fin (a * b)"
| "js_mul _ _ = NaN"

text \<open>\<open>Math.max(a, b)\<close>: \<open>NaN\<close> as soon as one argument is \<open>NaN\<close>.\<close>

fun Math_max :: "jsnum \<Rightarrow> jsnum \<Rightarrow> jsnum" where
  "Math_max (Fin a) (Fin b) = Fin (max a b)"
| "Math_max _ _ = NaN"

text \<open>\<open>Math.floor(x / 1000)\<close> on a whole number of milliseconds.\<close>

fun floor_div_1000 :: "jsnum \<Rightarrow> jsnum" where
  "floor_div_1000 (Fin a) = Fin (a div 1000)"
| "floor_div_1000 NaN = NaN"

text \<open>\<open>x <= 0\<close> and \<open>x > 0\<close>; both are false on \<open>NaN\<close>.\<close>

fun js_le0 :: "jsnum \<Rightarrow> bool" where
  "js_le0 (Fin a) = (a \<le> 0)"
| "js_le0 NaN = False"

fun js_gt0 :: "jsnum \<Rightarrow> bool" where
  "js_gt0 (Fin a) = (0 < a)"
| "js_gt0 NaN = False"

text \<open>
  The time value that \<open>new Date(v)\<close> keeps of a number \<open>v\<close>: the date is
  invalid (\<open>NaN\<close>) when \<open>v\<close> is \<open>NaN\<close> or lies more than 8.64e15 ms from
  the epoch.
\<close>

definition timeClip :: "jsnum \<Rightarrow> jsnum" where
  "timeClip v =
     (case v of
        NaN \<Rightarrow> NaN
      | Fin t \<Rightarrow> if \<bar>t\<bar> \<le> 8640000000000000 then Fin t else NaN)"

text \<open>
  The value of a JSON field such as \<open>time_limit_minutes\<close>, as the operators
  \<open>??\<close>, \<open>||\<close> and \<open>Number\<close> see it: absent, \<open>null\<close>, a whole number, or a
  truthy value that \<open>Number\<close> turns into \<open>NaN\<close> (the string \<open>"abc"\<close>, an
  object). Fractional numbers are not modelled.
\<close>

datatype jsval = Undefined | Null | Num int | NonNumeric

text \<open>\<open>a ?? b\<close>\<close>

fun nullish :: "jsval \<Rightarrow> jsval \<Rightarrow> jsval" where
  "nullish Undefined b = b"
| "nullish Null b = b"
| "nullish a b = a"

fun truthy :: "jsval \<Rightarrow> bool" where
  "truthy Undefined = False"
| "truthy Null = False"
| "truthy (Num n) = (n \<noteq> 0)"
| "truthy NonNumeric = True"

text \<open>\<open>a || b\<close>\<close>

definition or_else :: "jsval \<Rightarrow> jsval \<Rightarrow> jsval" where
  "or_else a b = (if truthy a then a else b)"

text \<open>\<open>Number(v)\<close>\<close>

fun Number :: "jsval \<Rightarrow> jsnum" where
  "Number Undefined = NaN"
| "Number Null = Fin 0"
| "Number (Num n) = Fin n"
| "Number NonNumeric = NaN"

text \<open>\<open>s.endsWith('Z') ? s : s + 'Z'\<close>, as both files write it.\<close>

definition endsWithZ :: "string \<Rightarrow> bool" where
  "endsWithZ s = (s \<noteq> [] \<and> last s = CHR ''Z'')"

definition withZ :: "string \<Rightarrow> string" where
  "withZ s = (if endsWithZ s then s else s @ ''Z'')"





section \<open>The answers object\<close>

text \<open>
  \<open>answers\<close> is a plain object keyed by question id; a value is \<open>null\<close>
  (unanswered) or the chosen option index. Ids are whole numbers (0 is the falsy
  id). \<open>Object.entries\<close> lists first the keys that are array indices (below
  \<open>2^32 - 1\<close>), in ascending order, then the other keys in the order in which
  they were added: the object is the list of its entries in that order. Reading
  a key that is not there gives \<open>undefined\<close>, here \<open>None\<close>.
\<close>

datatype answer = Unanswered | Chosen nat

type_synonym answer_set = "(nat \<times> answer) list"

definition array_index :: "nat \<Rightarrow> bool" where
  "array_index k = (k < 4294967295)"

text \<open>
  \<open>before k k'\<close>: a new key \<open>k\<close> is listed before the key \<open>k'\<close> that is
  already there.
\<close>

definition before :: "nat \<Rightarrow> nat \<Rightarrow> bool" where
  "before k k' = (array_index k \<and> (if array_index k' then k < k' else True))"

fun obj_put :: "nat \<Rightarrow> answer \<Rightarrow> answer_set \<Rightarrow> answer_set" where
  "obj_put k v [] = [(k, v)]"
| "obj_put k v ((k', v') # es) =
     (if k = k' then (k, v) # es
      else if before k k' then (k, v) # (k', v') # es
      else (k', v') # obj_put k v es)"


section \<open>Server data and component state of QuizRunner\<close>

record question =
  qid :: "nat option"

record quiz_data =
  q_time_limit_minutes :: jsval
  questions :: "question list option"

text \<open>
  The \<open>start_time\<close> of a start record: absent, \<open>null\<close>, or a text (which may
  be empty). Other kinds of value are not modelled.
\<close>

datatype time_field = Absent | NullField | Text string

record start_data =
  attempt_id :: "nat option"
  start_time :: time_field
  time_limit_minutes :: jsval

text \<open>
  What an awaited \<open>api\<close> call gives: the promise is rejected, with
  \<open>err.response?.data?.detail\<close> if the server sent one, or it resolves to a
  response whose \<open>data\<close> may be missing.
\<close>

datatype 'a reply = Rejected "string option" | Resolved "'a option"

datatype request =
    PostStart string
  | GetQuiz string
  | PostSubmit string "nat option" "(nat \<times> answer) list"

record runner_state =
  quiz :: "quiz_data option"
  attemptId :: "nat option"
  endTime :: "string option"
  currentQuestion :: nat
  answers :: answer_set
  loading :: bool
  submitting :: bool
  error :: string

text \<open>The state of a freshly mounted component (the \<open>useState\<close> initial values).\<close>

definition mounted :: runner_state where
  "mounted = \<lparr> quiz = None, attemptId = None, endTime = None, currentQuestion = 0,
               answers = [], loading = True, submitting = False, error = '''' \<rparr>"

text \<open>A truthy id: present and not 0.\<close>

fun truthy_id :: "nat option \<Rightarrow> bool" where
  "truthy_id None = False"
| "truthy_id (Some n) = (n \<noteq> 0)"

section \<open>Recording and submitting answers\<close>


datatype exn = TypeError | RangeError






definition formattedAnswers_timeout :: "answer_set \<Rightarrow> answer_set" where
  "formattedAnswers_timeout ans =
     map (\<lambda>(question_id, chosen_index). (question_id, chosen_index))
       (filter (\<lambda>(_, v). v \<noteq> Unanswered) ans)"


text \<open>\<open>handleTimeUp\<close> up to its first \<open>await\<close>.\<close>

definition handleTimeUp :: "string \<Rightarrow> runner_state \<Rightarrow> runner_state \<times> request list" where
  "handleTimeUp ident s =
     (if submitting s then (s, [])
      else (s\<lparr>submitting := True, error := ''''\<rparr>,
            [PostSubmit ident (attemptId s) (formattedAnswers_timeout (answers s))]))"

section \<open>Acquiring the attempt: startQuiz\<close>

text \<open>
  A time value is a whole number of milliseconds within 8.64e15 of the epoch;
  \<open>Date.now()\<close> gives one.
\<close>

typedef time_value = "{t :: int. \<bar>t\<bar> \<le> 8640000000000000}"
  morphisms ms Time
  by (rule exI [of _ 0]) simp

text \<open>
  What \<open>startQuiz\<close> meets outside the component: the replies to the first
  \<open>/start\<close>, to the quiz fetch and to the second \<open>/start\<close>, and the two
  readings of \<open>Date.now()\<close>.
\<close>

record world =
  first_start :: "start_data reply"
  quiz_reply :: "quiz_data reply"
  second_start :: "start_data reply"
  clock1 :: time_value
  clock2 :: time_value

definition start_error_text :: string where
  "start_error_text = ''Failed to start quiz. Please try again.''"

text \<open>\<open>detail || fallback\<close>\<close>

definition detail_or :: "string option \<Rightarrow> string \<Rightarrow> string" where
  "detail_or detail fallback =
     (case detail of None \<Rightarrow> fallback | Some m \<Rightarrow> if m = [] then fallback else m)"

text \<open>The \<open>catch\<close> block followed by the \<open>finally\<close> block.\<close>

definition start_failed :: "string option \<Rightarrow> runner_state \<Rightarrow> runner_state" where
  "start_failed detail s = s\<lparr>error := detail_or detail start_error_text, loading := False\<rparr>"

text \<open>
  Lines 45 to 51 and 63 to 68. \<open>start_time || ''\<close> is the text of the field,
  or the empty string when the field is absent, \<open>null\<close> or empty; it is parsed
  with a \<open>Z\<close> appended unless it ends with one. When that gives an invalid
  date the field itself is handed to \<open>new Date\<close>: \<open>new Date(undefined)\<close> is
  invalid, \<open>new Date(null)\<close> is the epoch, and a text is parsed as it came.
  \<open>parse s\<close> stands for the number the string \<open>s\<close> parses to, and
  \<open>new Date\<close> keeps it as its time value within the range of dates only.
\<close>

definition parse_start :: "(string \<Rightarrow> jsnum) \<Rightarrow> time_field \<Rightarrow> jsnum" where
  "parse_start parse field =
     (let startTimeRaw = (case field of Text s \<Rightarrow> s | _ \<Rightarrow> '''');
          startTimeIso = withZ startTimeRaw
      in case timeClip (parse startTimeIso) of
           Fin t \<Rightarrow> Fin t
         | NaN \<Rightarrow>
             (case field of
                Absent \<Rightarrow> NaN
              | NullField \<Rightarrow> Fin 0
              | Text s \<Rightarrow> timeClip (parse s)))"

text \<open>\<open>Math.max(1, Number(timeLimitMinutes || 0)) * 60000\<close>\<close>

definition timeLimitMs_of :: "jsval \<Rightarrow> jsnum" where
  "timeLimitMs_of timeLimitMinutes =
     js_mul (Math_max (Fin 1) (Number (or_else timeLimitMinutes (Num 0)))) (Fin 60000)"

text \<open>
  \<open>Math.max(1, Number(startResponse.data.time_limit_minutes || timeLimitMinutes || 1)) * 60000\<close>
\<close>

definition tlm2_of :: "jsval \<Rightarrow> jsval \<Rightarrow> jsnum" where
  "tlm2_of retried timeLimitMinutes =
     js_mul (Math_max (Fin 1) (Number (or_else (or_else retried timeLimitMinutes) (Num 1))))
       (Fin 60000)"

text \<open>The loop that fills \<open>initialAnswers\<close>.\<close>

definition initial_step :: "answer_set \<Rightarrow> question \<Rightarrow> answer_set" where
  "initial_step obj q =
     (case qid q of
        None \<Rightarrow> obj
      | Some k \<Rightarrow> if k \<noteq> 0 then obj_put k Unanswered obj else obj)"

definition initialAnswers :: "question list option \<Rightarrow> answer_set" where
  "initialAnswers qs = foldl initial_step [] (case qs of None \<Rightarrow> [] | Some l \<Rightarrow> l)"

text \<open>
  \<open>setEndTime(new Date(deadline).toISOString())\<close>, then the answers and the
  \<open>finally\<close> block. \<open>toISOString\<close> throws a \<open>RangeError\<close> on an invalid
  date, that is when the deadline is \<open>NaN\<close> or out of the range of dates;
  \<open>toISOString d\<close> stands for \<open>new Date(d).toISOString()\<close> on a valid one.
\<close>

definition finish_start ::
  "(int \<Rightarrow> string) \<Rightarrow> jsnum \<Rightarrow> quiz_data \<Rightarrow> runner_state \<Rightarrow> runner_state" where
  "finish_start toISOString deadline q s =
     (case timeClip deadline of
        NaN \<Rightarrow> start_failed None s
      | Fin d \<Rightarrow>
          s\<lparr>endTime := Some (toISOString d), answers := initialAnswers (questions q),
            loading := False\<rparr>)"

text \<open>
  \<open>startQuiz\<close>: the state it leaves and the requests it sent, in order. The
  remaining time computed after the retry (line 70) is assigned and not read
  again.
\<close>

definition startQuiz ::
  "(string \<Rightarrow> jsnum) \<Rightarrow> (int \<Rightarrow> string) \<Rightarrow> world \<Rightarrow> string \<Rightarrow> runner_state
     \<Rightarrow> runner_state \<times> request list" where
  "startQuiz parse toISOString w ident s0 =
     (let s1 = s0\<lparr>loading := True, error := ''''\<rparr> in
      case first_start w of
        Rejected detail \<Rightarrow> (start_failed detail s1, [PostStart ident])
      | Resolved None \<Rightarrow> (start_failed None s1, [PostStart ident])
      | Resolved (Some d1) \<Rightarrow>
          if \<not> truthy_id (attempt_id d1) then (start_failed None s1, [PostStart ident])
          else
            let s2 = s1\<lparr>attemptId := attempt_id d1\<rparr> in
            (case quiz_reply w of
               Rejected detail \<Rightarrow> (start_failed detail s2, [PostStart ident, GetQuiz ident])
             | Resolved None \<Rightarrow> (start_failed None s2, [PostStart ident, GetQuiz ident])
             | Resolved (Some q) \<Rightarrow>
                 let s3 = s2\<lparr>quiz := Some q\<rparr>;
                     parsedStart = parse_start parse (start_time d1);
                     timeLimitMinutes =
                       nullish (time_limit_minutes d1) (q_time_limit_minutes q);
                     timeLimitMs = timeLimitMs_of timeLimitMinutes;
                     remainingMs = js_sub (js_add parsedStart timeLimitMs) (Fin (ms (clock1 w)))
                 in
                 if js_le0 remainingMs then
                   (case second_start w of
                      Rejected detail \<Rightarrow>
                        (start_failed detail s3, [PostStart ident, GetQuiz ident, PostStart ident])
                    | Resolved None \<Rightarrow>
                        (start_failed None s3, [PostStart ident, GetQuiz ident, PostStart ident])
                    | Resolved (Some d2) \<Rightarrow>
                        let s4 = s3\<lparr>attemptId := attempt_id d2\<rparr>;
                            startTime2 = parse_start parse (start_time d2);
                            tlm2 = tlm2_of (time_limit_minutes d2) timeLimitMinutes;
                            remainingMs2 = js_sub (js_add startTime2 tlm2) (Fin (ms (clock2 w)))
                        in (finish_start toISOString (js_add startTime2 tlm2) q s4,
                            [PostStart ident, GetQuiz ident, PostStart ident]))
                 else
                   (finish_start toISOString (js_add parsedStart timeLimitMs) q s3,
                    [PostStart ident, GetQuiz ident])))"

section \<open>The countdown: Timer\<close>

text \<open>
  The timer holds the displayed seconds and two timers of the runtime: the
  one-shot timeout of \<open>timeoutRef\<close> and the interval of \<open>intervalRef\<close>, each
  written as the time at which it is next due, \<open>None\<close> when nothing is
  pending. \<open>clock\<close> is the time at which the component last ran and
  \<open>trace\<close> records what it did from its callbacks: a call of \<open>onTimeUp\<close>,
  or a periodic update of the display.
\<close>

datatype timer_event = Expired int | Tick int jsnum

record timer_state =
  timeLeft :: jsnum
  pendingTimeout :: "int option"
  pendingInterval :: "int option"
  clock :: int
  trace :: "timer_event list"

definition Timer_initial :: timer_state where
  "Timer_initial = \<lparr> timeLeft = Fin 0, pendingTimeout = None, pendingInterval = None,
                     clock = 0, trace = [] \<rparr>"

definition calculateTimeLeft :: "(string \<Rightarrow> jsnum) \<Rightarrow> string \<Rightarrow> int \<Rightarrow> jsnum" where
  "calculateTimeLeft parse end_time now =
     (let endTimeStr = withZ end_time;
          end_ms = parse endTimeStr
      in Math_max (Fin 0) (js_sub end_ms (Fin now)))"

text \<open>The cleanup function of the effect.\<close>

definition Timer_cleanup :: "timer_state \<Rightarrow> timer_state" where
  "Timer_cleanup s = s\<lparr>pendingInterval := None, pendingTimeout := None\<rparr>"

text \<open>
  \<open>setTimeout(callback, delay)\<close> called at time \<open>now\<close> with a positive
  delay: the time from which the callback may run. The delay is taken as a
  32-bit signed integer; one that does not fit (above \<open>2^31 - 1\<close> ms, some 24.8
  days) is not waited for, and the callback may run at once.
\<close>

definition setTimeout_due :: "int \<Rightarrow> int \<Rightarrow> int" where
  "setTimeout_due now delay = (if delay \<le> 2147483647 then now + delay else now)"

text \<open>
  The body of the effect, run at time \<open>now\<close>: it clears what is pending, sets
  the display and, when time is left, arms the timeout with that delay and the
  interval with 1000 ms.
\<close>

definition Timer_effect :: "(string \<Rightarrow> jsnum) \<Rightarrow> string \<Rightarrow> int \<Rightarrow> timer_state \<Rightarrow> timer_state" where
  "Timer_effect parse end_time now s =
     (let s1 = s\<lparr>pendingInterval := None, pendingTimeout := None, clock := now\<rparr>;
          initialTimeLeft = calculateTimeLeft parse end_time now;
          s2 = s1\<lparr>timeLeft := floor_div_1000 initialTimeLeft\<rparr>
      in if js_gt0 initialTimeLeft
         then (case initialTimeLeft of
                 Fin delay \<Rightarrow>
                   s2\<lparr>pendingTimeout := Some (setTimeout_due now delay),
                      pendingInterval := Some (setTimeout_due now 1000)\<rparr>
               | NaN \<Rightarrow> s2)
         else s2)"

text \<open>
  The runtime runs a pending callback at a time \<open>t\<close> of its choice, not before
  the callback is due and not before the present. The timeout is consumed when
  it runs; the interval is due again 1000 ms after it was.
\<close>

datatype callback = TimeoutCb | IntervalCb

fun fire :: "(string \<Rightarrow> jsnum) \<Rightarrow> string \<Rightarrow> callback \<Rightarrow> int \<Rightarrow> timer_state \<Rightarrow> timer_state option" where
  "fire parse end_time TimeoutCb t s =
     (case pendingTimeout s of
        None \<Rightarrow> None
      | Some due \<Rightarrow>
          if due \<le> t \<and> clock s \<le> t
          then Some (s\<lparr>pendingTimeout := None, timeLeft := Fin 0, pendingInterval := None,
                      clock := t, trace := trace s @ [Expired t]\<rparr>)
          else None)"
| "fire parse end_time IntervalCb t s =
     (case pendingInterval s of
        None \<Rightarrow> None
      | Some due \<Rightarrow>
          if due \<le> t \<and> clock s \<le> t
          then (let remaining = calculateTimeLeft parse end_time t
                in Some (s\<lparr>timeLeft := floor_div_1000 remaining,
                           pendingInterval := Some (due + 1000), clock := t,
                           trace := trace s @ [Tick t (floor_div_1000 remaining)]\<rparr>))
          else None)"

fun run :: "(string \<Rightarrow> jsnum) \<Rightarrow> string \<Rightarrow> (callback \<times> int) list \<Rightarrow> timer_state \<Rightarrow> timer_state option" where
  "run parse end_time [] s = Some s"
| "run parse end_time ((cb, t) # sch) s =
     (case fire parse end_time cb t s of
        None \<Rightarrow> None
      | Some s' \<Rightarrow> run parse end_time sch s')"

fun is_Expired :: "timer_event \<Rightarrow> bool" where
  "is_Expired (Expired t) = True"
| "is_Expired (Tick t v) = False"

text \<open>
  What holds of a timer started with deadline \<open>D\<close> ahead: until \<open>onTimeUp\<close>
  has been called the timeout is pending, due at \<open>D\<close>; once it has been
  called nothing is pending, and the call is the last entry of the trace, at a
  time not before \<open>D\<close>.
\<close>

definition timer_inv :: "int \<Rightarrow> timer_state \<Rightarrow> bool" where
  "timer_inv D s \<longleftrightarrow>
     (if filter is_Expired (trace s) = []
      then pendingTimeout s = Some D
      else pendingTimeout s = None \<and> pendingInterval s = None \<and>
           (case last (trace s) of Expired t \<Rightarrow> D \<le> t | Tick t v \<Rightarrow> False) \<and>
           filter is_Expired (butlast (trace s)) = [])"

section \<open>Sample data\<close>

text \<open>
  A quiz of four questions with the first three answered, as the page holds it
  while the attempt runs.
\<close>

definition sample_quiz :: quiz_data where
  "sample_quiz = \<lparr> q_time_limit_minutes = Num 15,
     questions = Some [\<lparr>qid = Some 1\<rparr>, \<lparr>qid = Some 2\<rparr>, \<lparr>qid = Some 3\<rparr>, \<lparr>qid = Some 4\<rparr>] \<rparr>"

definition sample_state :: runner_state where
  "sample_state = \<lparr> quiz = Some sample_quiz, attemptId = Some 7, endTime = Some ''2026-01-01T00:15:00.000Z'',
     currentQuestion = 3, answers = [(1, Chosen 0), (2, Chosen 2), (3, Chosen 1), (4, Unanswered)],
     loading = False, submitting = False, error = '''' \<rparr>"






text \<open>
  A date parser that knows four timestamps, the first ten seconds after the
  epoch and the last \<open>2^31\<close> ms after 7648 ms, and takes everything else for
  an invalid date; a deadline written without its \<open>Z\<close>, a schedule of two
  display ticks and the timeout, a deadline that is no date, and a deadline
  more than \<open>2^31 - 1\<close> ms away from the time 7000.
\<close>

definition sample_parse :: "string \<Rightarrow> jsnum" where
  "sample_parse str =
     (if str = ''1970-01-01T00:00:10.000Z'' then Fin 10000
      else if str = ''1970-01-01T00:01:10.000Z'' then Fin 70000
      else if str = ''1970-01-01T00:15:10.000Z'' then Fin 910000
      else if str = ''1970-01-25T20:31:30.648Z'' then Fin 2147490648
      else NaN)"

definition sample_schedule :: "(callback \<times> int) list" where
  "sample_schedule = [(IntervalCb, 8000), (IntervalCb, 9001), (TimeoutCb, 10002)]"

definition sample_end :: string where
  "sample_end = ''1970-01-01T00:00:10.000''"

definition sample_timer_done :: timer_state where
  "sample_timer_done = \<lparr> timeLeft = Fin 0, pendingTimeout = None, pendingInterval = None,
     clock = 10002, trace = [Tick 8000 (Fin 2), Tick 9001 (Fin 0), Expired 10002] \<rparr>"

definition sample_garbage :: string where
  "sample_garbage = ''next tuesday''"

definition far_end :: string where
  "far_end = ''1970-01-25T20:31:30.648Z''"

text \<open>
  The formatter of the three timestamps the samples meet, a start record ten
  seconds after the epoch with a limit of fifteen minutes, and five worlds: one
  asked five minutes into the attempt, one that returns the attempt long after
  its deadline on both calls, one whose start record carries no time limit, one
  whose limit is 0, and one whose limit of 144000000001 minutes ends beyond the
  last date. The last quiz has a question without id, one with id 0 and a
  repeated id.
\<close>

definition sample_toISOString :: "int \<Rightarrow> string" where
  "sample_toISOString d =
     (if d = 910000 then ''1970-01-01T00:15:10.000Z''
      else if d = 70000 then ''1970-01-01T00:01:10.000Z''
      else if d = 10000 then ''1970-01-01T00:00:10.000Z''
      else ''Invalid Date'')"

definition sample_start :: start_data where
  "sample_start = \<lparr> attempt_id = Some 7, start_time = Text ''1970-01-01T00:00:10.000'',
                    time_limit_minutes = Num 15 \<rparr>"

definition sample_world :: world where
  "sample_world = \<lparr> first_start = Resolved (Some sample_start),
                    quiz_reply = Resolved (Some sample_quiz),
                    second_start = Rejected None, clock1 = Time 310000, clock2 = Time 310000 \<rparr>"

definition stale_world :: world where
  "stale_world = \<lparr> first_start = Resolved (Some sample_start),
                   quiz_reply = Resolved (Some sample_quiz),
                   second_start = Resolved (Some (sample_start\<lparr>attempt_id := Some 8\<rparr>)),
                   clock1 = Time 2000000, clock2 = Time 2000100 \<rparr>"

definition unlimited_world :: world where
  "unlimited_world =
     sample_world\<lparr>first_start := Resolved (Some (sample_start\<lparr>time_limit_minutes := Undefined\<rparr>)),
                  clock1 := Time 20000\<rparr>"

definition zero_limit_world :: world where
  "zero_limit_world =
     sample_world\<lparr>first_start := Resolved (Some (sample_start\<lparr>time_limit_minutes := Num 0\<rparr>)),
                  clock1 := Time 20000\<rparr>"

definition endless_world :: world where
  "endless_world =
     sample_world\<lparr>first_start :=
                    Resolved (Some (sample_start\<lparr>time_limit_minutes := Num 144000000001\<rparr>)),
                  clock1 := Time 20000\<rparr>"

definition ragged_quiz :: quiz_data where
  "ragged_quiz = \<lparr> q_time_limit_minutes = Num 15,
     questions = Some [\<lparr>qid = Some 2\<rparr>, \<lparr>qid = None\<rparr>, \<lparr>qid = Some 1\<rparr>, \<lparr>qid = Some 0\<rparr>,
                       \<lparr>qid = Some 2\<rparr>] \<rparr>"

definition ragged_world :: world where
  "ragged_world = sample_world\<lparr>quiz_reply := Resolved (Some ragged_quiz)\<rparr>"

section \<open>Manual submission with unanswered questions\<close>








section \<open>Submission on timeout\<close>

text \<open>
  C4. While no submission is in flight, \<open>handleTimeUp\<close> sends exactly one
  submit request for every answer set. Its answer list is the entries of the
  answer set whose value is not \<open>null\<close>, in order, each with its chosen
  index, and nothing else; when no question is answered the request is sent all
  the same, with the empty list.
\<close>

theorem timeout_submit_partial:
  assumes "\<not> submitting s"
  shows "snd (handleTimeUp ident s) =
           [PostSubmit ident (attemptId s) (filter (\<lambda>(k, v). v \<noteq> Unanswered) (answers s))]
         \<and> set (filter (\<lambda>(k, v). v \<noteq> Unanswered) (answers s)) =
             {(k, Chosen i) | k i. (k, Chosen i) \<in> set (answers s)}
         \<and> ((\<forall>e \<in> set (answers s). snd e = Unanswered) \<longrightarrow>
               snd (handleTimeUp ident s) = [PostSubmit ident (attemptId s) []])"
proof -
  have a: "snd (handleTimeUp ident s) =
           [PostSubmit ident (attemptId s) (filter (\<lambda>(k, v). v \<noteq> Unanswered) (answers s))]"
    using assms by (simp add: handleTimeUp_def formattedAnswers_timeout_def)
  have b: "set (filter (\<lambda>(k, v). v \<noteq> Unanswered) (answers s)) =
             {(k, Chosen i) | k i. (k, Chosen i) \<in> set (answers s)}"
  proof (rule set_eqI)
    fix e :: "nat \<times> answer"
    obtain k v where e: "e = (k, v)" by (cases e)
    show "e \<in> set (filter (\<lambda>(k, v). v \<noteq> Unanswered) (answers s)) \<longleftrightarrow>
          e \<in> {(k, Chosen i) | k i. (k, Chosen i) \<in> set (answers s)}"
      unfolding e by (cases v) auto
  qed
  have c: "(\<forall>e \<in> set (answers s). snd e = Unanswered) \<longrightarrow>
               filter (\<lambda>(k, v). v \<noteq> Unanswered) (answers s) = []"
    by (auto simp: filter_empty_conv)
  from a b c show ?thesis by simp
qed

theorem timeout_submit_partial_witness:
  "snd (handleTimeUp ''5'' sample_state) =
     [PostSubmit ''5'' (Some 7) [(1, Chosen 0), (2, Chosen 2), (3, Chosen 1)]] \<and>
   snd (handleTimeUp ''5'' (sample_state\<lparr>answers := initialAnswers (questions sample_quiz)\<rparr>)) =
     [PostSubmit ''5'' (Some 7) []]"
proof -
  let ?blank = "sample_state\<lparr>answers := initialAnswers (questions sample_quiz)\<rparr>"
  have h: "\<not> submitting sample_state" by (simp add: sample_state_def)
  have h': "\<not> submitting ?blank" by (simp add: sample_state_def)
  have b: "answers ?blank = [(1, Unanswered), (2, Unanswered), (3, Unanswered), (4, Unanswered)]"
    by (simp add: initialAnswers_def sample_quiz_def initial_step_def before_def array_index_def)
  have u: "\<forall>e \<in> set (answers ?blank). snd e = Unanswered"
    unfolding b by simp
  from timeout_submit_partial [OF h, of "''5''"]
  have first: "snd (handleTimeUp ''5'' sample_state) =
     [PostSubmit ''5'' (Some 7) [(1, Chosen 0), (2, Chosen 2), (3, Chosen 1)]]"
    by (simp add: sample_state_def)
  from timeout_submit_partial [OF h', of "''5''"] u
  have "snd (handleTimeUp ''5'' ?blank) = [PostSubmit ''5'' (attemptId ?blank) []]"
    by blast
  then have second: "snd (handleTimeUp ''5'' ?blank) = [PostSubmit ''5'' (Some 7) []]"
    by (simp add: sample_state_def)
  from first second show ?thesis by simp
qed

section \<open>The timer with a deadline ahead\<close>

lemma calculateTimeLeft_Fin:
  "parse (withZ e) = Fin D \<Longrightarrow> calculateTimeLeft parse e now = Fin (max 0 (D - now))"
  by (simp add: calculateTimeLeft_def)

lemma calculateTimeLeft_NaN:
  "parse (withZ e) = NaN \<Longrightarrow> calculateTimeLeft parse e now = NaN"
  by (simp add: calculateTimeLeft_def)

lemma Timer_effect_future:
  assumes "parse (withZ e) = Fin D" and "now < D" and "D - now \<le> 2147483647"
  shows "Timer_effect parse e now s =
           s\<lparr>pendingInterval := Some (now + 1000), pendingTimeout := Some D, clock := now,
             timeLeft := Fin ((D - now) div 1000)\<rparr>"
  using assms
  by (simp add: Timer_effect_def calculateTimeLeft_Fin Let_def max_def setTimeout_due_def)

lemma Timer_effect_far:
  assumes "parse (withZ e) = Fin D" and "2147483647 < D - now"
  shows "Timer_effect parse e now s =
           s\<lparr>pendingInterval := Some (now + 1000), pendingTimeout := Some now, clock := now,
             timeLeft := Fin ((D - now) div 1000)\<rparr>"
  using assms
  by (simp add: Timer_effect_def calculateTimeLeft_Fin Let_def max_def setTimeout_due_def)

lemma Timer_effect_past:
  assumes "parse (withZ e) = Fin D" and "D \<le> now"
  shows "Timer_effect parse e now s =
           s\<lparr>pendingInterval := None, pendingTimeout := None, clock := now, timeLeft := Fin 0\<rparr>"
  using assms by (simp add: Timer_effect_def calculateTimeLeft_Fin Let_def max_def)

lemma Timer_effect_NaN:
  assumes "parse (withZ e) = NaN"
  shows "Timer_effect parse e now s =
           s\<lparr>pendingInterval := None, pendingTimeout := None, clock := now, timeLeft := NaN\<rparr>"
  using assms by (simp add: Timer_effect_def calculateTimeLeft_NaN Let_def)

lemma fire_nothing_pending:
  "pendingTimeout s = None \<Longrightarrow> pendingInterval s = None \<Longrightarrow> fire parse e cb t s = None"
  by (cases cb) simp_all

lemma run_nothing_pending:
  assumes "pendingTimeout s = None" and "pendingInterval s = None"
    and "run parse e sch s = Some s'"
  shows "sch = [] \<and> s' = s"
proof (cases sch)
  case Nil
  with assms(3) show ?thesis by simp
next
  case (Cons p rest)
  obtain cb t where "p = (cb, t)" by (cases p)
  with Cons assms show ?thesis by (simp add: fire_nothing_pending)
qed

lemma fire_inv:
  assumes "timer_inv D s" and "fire parse e cb t s = Some s'"
  shows "timer_inv D s'"
proof (cases "filter is_Expired (trace s) = []")
  case True
  with assms(1) have p: "pendingTimeout s = Some D" by (simp add: timer_inv_def)
  show ?thesis
  proof (cases cb)
    case TimeoutCb
    with assms(2) p have "D \<le> t"
      and "s' = s\<lparr>pendingTimeout := None, timeLeft := Fin 0, pendingInterval := None,
                    clock := t, trace := trace s @ [Expired t]\<rparr>"
      by (auto split: if_splits)
    with True show ?thesis by (simp add: timer_inv_def)
  next
    case IntervalCb
    with assms(2) obtain due where
      "s' = s\<lparr>timeLeft := floor_div_1000 (calculateTimeLeft parse e t),
               pendingInterval := Some (due + 1000), clock := t,
               trace := trace s @ [Tick t (floor_div_1000 (calculateTimeLeft parse e t))]\<rparr>"
      by (auto simp: Let_def split: option.splits if_splits)
    with True p show ?thesis by (simp add: timer_inv_def)
  qed
next
  case False
  with assms(1) have "pendingTimeout s = None" "pendingInterval s = None"
    by (simp_all add: timer_inv_def)
  then have "fire parse e cb t s = None" by (rule fire_nothing_pending)
  with assms(2) show ?thesis by simp
qed

lemma run_inv:
  "timer_inv D s \<Longrightarrow> run parse e sch s = Some s' \<Longrightarrow> timer_inv D s'"
proof (induction sch arbitrary: s)
  case Nil
  then show ?case by simp
next
  case (Cons p sch)
  obtain cb t where p: "p = (cb, t)" by (cases p)
  from Cons.prems(2) p obtain s1 where
    f: "fire parse e cb t s = Some s1" and r: "run parse e sch s1 = Some s'"
    by (auto split: option.splits)
  from fire_inv [OF Cons.prems(1) f] have "timer_inv D s1" .
  from Cons.IH [OF this r] show ?case .
qed

lemma inv_at_most_once:
  assumes "timer_inv D s"
  shows "length (filter is_Expired (trace s)) \<le> 1"
proof (cases "filter is_Expired (trace s) = []")
  case True
  then show ?thesis by simp
next
  case False
  then have ne: "trace s \<noteq> []" by auto
  from False assms have b: "filter is_Expired (butlast (trace s)) = []"
    by (simp add: timer_inv_def)
  have "filter is_Expired (trace s) = filter is_Expired (butlast (trace s) @ [last (trace s)])"
    using ne by simp
  also have "\<dots> = filter is_Expired [last (trace s)]"
    using b by (simp del: append_butlast_last_id)
  finally show ?thesis by simp
qed

lemma inv_not_before:
  assumes "timer_inv D s" and "Expired t \<in> set (trace s)"
  shows "D \<le> t"
proof -
  from assms(2) have f: "filter is_Expired (trace s) \<noteq> []"
    by (auto simp: filter_empty_conv intro: bexI [of _ "Expired t"])
  then have ne: "trace s \<noteq> []" by auto
  from f assms(1) have b: "filter is_Expired (butlast (trace s)) = []"
    and l: "(case last (trace s) of Expired t \<Rightarrow> D \<le> t | Tick t v \<Rightarrow> False)"
    by (simp_all add: timer_inv_def)
  from assms(2) ne have "Expired t \<in> set (butlast (trace s)) \<or> Expired t = last (trace s)"
    by (metis Un_iff append_butlast_last_id empty_iff empty_set insert_iff list.simps(15) set_append)
  moreover from b have "Expired t \<notin> set (butlast (trace s))"
    by (auto simp: filter_empty_conv)
  ultimately have "last (trace s) = Expired t" by simp
  with l show ?thesis by simp
qed

lemma inv_expired_last:
  assumes "timer_inv D s" and "filter is_Expired (trace s) \<noteq> []"
  shows "is_Expired (last (trace s))"
  using assms by (cases "last (trace s)") (simp_all add: timer_inv_def)

lemma sample_parse_end: "sample_parse (withZ sample_end) = Fin 10000"
  by (simp add: sample_parse_def sample_end_def withZ_def endsWithZ_def)

lemma sample_run:
  "run sample_parse sample_end sample_schedule (Timer_effect sample_parse sample_end 7000 Timer_initial)
     = Some sample_timer_done"
  by (simp add: Timer_effect_future [of sample_parse sample_end 10000, OF sample_parse_end]
      calculateTimeLeft_Fin [of sample_parse sample_end 10000, OF sample_parse_end]
      sample_schedule_def Timer_initial_def sample_timer_done_def)

lemma sample_parse_garbage: "sample_parse (withZ sample_garbage) = NaN"
  by (simp add: sample_parse_def sample_garbage_def withZ_def endsWithZ_def)

text \<open>
  C5, as the code has it. A timer started at \<open>now\<close> with a deadline \<open>D\<close>
  ahead of \<open>now\<close> by no more than \<open>2^31 - 1\<close> ms, the longest delay that
  \<open>setTimeout\<close> waits for, arms one timeout, due at \<open>D\<close>. Whatever the
  runtime then runs, and whenever: \<open>onTimeUp\<close> is called at most once and
  never before \<open>D\<close>; as long as it has not been called the timeout stays
  pending at \<open>D\<close>, and running it at any time from \<open>D\<close> on calls
  \<open>onTimeUp\<close>, for the first and only time; once it has been called, neither
  timer is pending, no callback can run any more, and the call is the last
  entry of the trace, so that no periodic update follows it.
\<close>

theorem timer_future_deadline:
  assumes "parse (withZ e) = Fin D" and "now < D" and "D - now \<le> 2147483647"
    and "run parse e sch (Timer_effect parse e now Timer_initial) = Some s"
  shows "pendingTimeout (Timer_effect parse e now Timer_initial) = Some D \<and>
         length (filter is_Expired (trace s)) \<le> 1 \<and>
         (\<forall>t. Expired t \<in> set (trace s) \<longrightarrow> D \<le> t) \<and>
         (filter is_Expired (trace s) = [] \<longrightarrow>
            pendingTimeout s = Some D \<and>
            (\<forall>t. D \<le> t \<and> clock s \<le> t \<longrightarrow>
               (\<exists>s'. fire parse e TimeoutCb t s = Some s' \<and>
                     filter is_Expired (trace s') = [Expired t]))) \<and>
         (filter is_Expired (trace s) \<noteq> [] \<longrightarrow>
            pendingTimeout s = None \<and> pendingInterval s = None \<and>
            is_Expired (last (trace s)) \<and> (\<forall>cb t. fire parse e cb t s = None))"
proof -
  let ?s0 = "Timer_effect parse e now Timer_initial"
  have s0: "?s0 = Timer_initial\<lparr>pendingInterval := Some (now + 1000), pendingTimeout := Some D,
               clock := now, timeLeft := Fin ((D - now) div 1000)\<rparr>"
    using assms(1,2,3) by (rule Timer_effect_future)
  have armed: "pendingTimeout ?s0 = Some D" by (simp add: s0)
  have "timer_inv D ?s0" unfolding s0 by (simp add: timer_inv_def Timer_initial_def)
  from run_inv [OF this assms(4)] have inv: "timer_inv D s" .
  have once: "length (filter is_Expired (trace s)) \<le> 1" using inv by (rule inv_at_most_once)
  have late: "\<forall>t. Expired t \<in> set (trace s) \<longrightarrow> D \<le> t" using inv inv_not_before by blast
  have before: "filter is_Expired (trace s) = [] \<longrightarrow>
            pendingTimeout s = Some D \<and>
            (\<forall>t. D \<le> t \<and> clock s \<le> t \<longrightarrow>
               (\<exists>s'. fire parse e TimeoutCb t s = Some s' \<and>
                     filter is_Expired (trace s') = [Expired t]))"
    using inv by (simp add: timer_inv_def)
  have after: "filter is_Expired (trace s) \<noteq> [] \<longrightarrow>
            pendingTimeout s = None \<and> pendingInterval s = None \<and>
            is_Expired (last (trace s)) \<and> (\<forall>cb t. fire parse e cb t s = None)"
  proof
    assume f: "filter is_Expired (trace s) \<noteq> []"
    with inv have n: "pendingTimeout s = None" "pendingInterval s = None"
      by (simp_all add: timer_inv_def)
    from inv f have "is_Expired (last (trace s))" by (rule inv_expired_last)
    with n show "pendingTimeout s = None \<and> pendingInterval s = None \<and>
            is_Expired (last (trace s)) \<and> (\<forall>cb t. fire parse e cb t s = None)"
      by (simp add: fire_nothing_pending)
  qed
  from armed once late before after show ?thesis by blast
qed

theorem timer_future_deadline_witness:
  "pendingTimeout (Timer_effect sample_parse sample_end 7000 Timer_initial) = Some 10000 \<and>
   run sample_parse sample_end sample_schedule
     (Timer_effect sample_parse sample_end 7000 Timer_initial) = Some sample_timer_done \<and>
   filter is_Expired (trace sample_timer_done) = [Expired 10002] \<and>
   length (filter is_Expired (trace sample_timer_done)) \<le> 1 \<and>
   pendingTimeout sample_timer_done = None \<and> pendingInterval sample_timer_done = None \<and>
   is_Expired (last (trace sample_timer_done))"
proof -
  have lt: "(7000::int) < 10000" by simp
  have le: "(10000::int) - 7000 \<le> 2147483647" by simp
  have f: "filter is_Expired (trace sample_timer_done) = [Expired 10002]"
    by (simp add: sample_timer_done_def)
  from timer_future_deadline [of sample_parse sample_end 10000 7000 sample_schedule sample_timer_done,
      OF sample_parse_end lt le sample_run] f sample_run
  show ?thesis by simp
qed

lemma sample_parse_far: "sample_parse (withZ far_end) = Fin 2147490648"
  by (simp add: sample_parse_def far_end_def withZ_def endsWithZ_def)

theorem timer_future_deadline_counterexample:
  "sample_parse (withZ far_end) = Fin 2147490648 \<and> (7000::int) < 2147490648 \<and>
   pendingTimeout (Timer_effect sample_parse far_end 7000 Timer_initial) = Some 7000 \<and>
   map_option trace
     (run sample_parse far_end [(TimeoutCb, 7003)]
        (Timer_effect sample_parse far_end 7000 Timer_initial)) = Some [Expired 7003] \<and>
   (7003::int) < 2147490648"
proof -
  have far: "(2147483647::int) < 2147490648 - 7000" by simp
  have e: "Timer_effect sample_parse far_end 7000 Timer_initial =
             Timer_initial\<lparr>pendingInterval := Some (7000 + 1000), pendingTimeout := Some 7000,
               clock := 7000, timeLeft := Fin ((2147490648 - 7000) div 1000)\<rparr>"
    using sample_parse_far far by (rule Timer_effect_far)
  show ?thesis unfolding e by (simp add: sample_parse_far Timer_initial_def)
qed

section \<open>The timer with a deadline that has passed\<close>

text \<open>
  C6, as the code has it. A timer started at or after its deadline sets the
  display to 0 and arms nothing (the guard \<open>initialTimeLeft > 0\<close>): no callback
  can ever run, so \<open>onTimeUp\<close> is not called, neither at once nor later,
  and no periodic update is made.
\<close>

theorem timer_past_deadline:
  assumes "parse (withZ e) = Fin D" and "D \<le> now"
  shows "Timer_effect parse e now s =
           s\<lparr>pendingInterval := None, pendingTimeout := None, clock := now, timeLeft := Fin 0\<rparr> \<and>
         (\<forall>cb t. fire parse e cb t (Timer_effect parse e now s) = None) \<and>
         (\<forall>sch s'. run parse e sch (Timer_effect parse e now s) = Some s' \<longrightarrow>
                     sch = [] \<and> trace s' = trace s)"
proof -
  let ?s0 = "Timer_effect parse e now s"
  have s0: "?s0 = s\<lparr>pendingInterval := None, pendingTimeout := None, clock := now,
                     timeLeft := Fin 0\<rparr>"
    using assms by (rule Timer_effect_past)
  have n: "pendingTimeout ?s0 = None" "pendingInterval ?s0 = None" by (simp_all add: s0)
  have a: "\<forall>cb t. fire parse e cb t ?s0 = None" using n by (simp add: fire_nothing_pending)
  have b: "\<forall>sch s'. run parse e sch ?s0 = Some s' \<longrightarrow> sch = [] \<and> trace s' = trace s"
  proof (intro allI impI)
    fix sch s'
    assume "run parse e sch ?s0 = Some s'"
    from run_nothing_pending [OF n this] have "sch = []" "s' = ?s0" by simp_all
    then show "sch = [] \<and> trace s' = trace s" by (simp add: s0)
  qed
  from s0 a b show ?thesis by blast
qed

theorem timer_past_deadline_witness:
  "Timer_effect sample_parse sample_end 15000 Timer_initial =
     Timer_initial\<lparr>pendingInterval := None, pendingTimeout := None, clock := 15000,
                   timeLeft := Fin 0\<rparr> \<and>
   fire sample_parse sample_end TimeoutCb 15001
     (Timer_effect sample_parse sample_end 15000 Timer_initial) = None"
proof -
  have le: "(10000::int) \<le> 15000" by simp
  from timer_past_deadline [of sample_parse sample_end 10000 15000 Timer_initial,
      OF sample_parse_end le]
  show ?thesis by blast
qed

theorem timer_past_deadline_counterexample:
  "pendingTimeout (Timer_effect sample_parse sample_end 15000 Timer_initial) = None \<and>
   pendingInterval (Timer_effect sample_parse sample_end 15000 Timer_initial) = None \<and>
   trace (Timer_effect sample_parse sample_end 15000 Timer_initial) = [] \<and>
   run sample_parse sample_end [(TimeoutCb, 15001)]
     (Timer_effect sample_parse sample_end 15000 Timer_initial) = None"
  by (simp add: Timer_effect_past [of sample_parse sample_end 10000, OF sample_parse_end] Timer_initial_def)

section \<open>The timer with a deadline that is no date\<close>

text \<open>
  C7, as the code has it. A deadline that does not parse is not rejected: the
  effect runs to its end, the display becomes \<open>NaN\<close>, and since
  \<open>NaN > 0\<close> is false nothing is armed, as for a deadline that has passed;
  \<open>onTimeUp\<close> is never called and nothing is reported to the caller.
\<close>

theorem timer_unparseable_deadline:
  assumes "parse (withZ e) = NaN"
  shows "Timer_effect parse e now s =
           s\<lparr>pendingInterval := None, pendingTimeout := None, clock := now, timeLeft := NaN\<rparr> \<and>
         (\<forall>cb t. fire parse e cb t (Timer_effect parse e now s) = None) \<and>
         (\<forall>sch s'. run parse e sch (Timer_effect parse e now s) = Some s' \<longrightarrow>
                     sch = [] \<and> trace s' = trace s)"
proof -
  let ?s0 = "Timer_effect parse e now s"
  have s0: "?s0 = s\<lparr>pendingInterval := None, pendingTimeout := None, clock := now,
                     timeLeft := NaN\<rparr>"
    using assms by (rule Timer_effect_NaN)
  have n: "pendingTimeout ?s0 = None" "pendingInterval ?s0 = None" by (simp_all add: s0)
  have a: "\<forall>cb t. fire parse e cb t ?s0 = None" using n by (simp add: fire_nothing_pending)
  have b: "\<forall>sch s'. run parse e sch ?s0 = Some s' \<longrightarrow> sch = [] \<and> trace s' = trace s"
  proof (intro allI impI)
    fix sch s'
    assume "run parse e sch ?s0 = Some s'"
    from run_nothing_pending [OF n this] have "sch = []" "s' = ?s0" by simp_all
    then show "sch = [] \<and> trace s' = trace s" by (simp add: s0)
  qed
  from s0 a b show ?thesis by blast
qed

theorem timer_unparseable_deadline_witness:
  "Timer_effect sample_parse sample_garbage 15000 Timer_initial =
     Timer_initial\<lparr>pendingInterval := None, pendingTimeout := None, clock := 15000,
                   timeLeft := NaN\<rparr> \<and>
   fire sample_parse sample_garbage TimeoutCb 15001
     (Timer_effect sample_parse sample_garbage 15000 Timer_initial) = None"
proof -
  from timer_unparseable_deadline [of sample_parse sample_garbage 15000 Timer_initial,
      OF sample_parse_garbage]
  show ?thesis by blast
qed

theorem timer_unparseable_deadline_counterexample:
  "Timer_effect sample_parse sample_garbage 15000 Timer_initial =
     (Timer_effect sample_parse sample_end 15000 Timer_initial)\<lparr>timeLeft := NaN\<rparr> \<and>
   pendingTimeout (Timer_effect sample_parse sample_garbage 15000 Timer_initial) = None \<and>
   pendingInterval (Timer_effect sample_parse sample_garbage 15000 Timer_initial) = None"
  by (simp add: Timer_effect_past [of sample_parse sample_end 10000, OF sample_parse_end]
      Timer_effect_NaN [of sample_parse sample_garbage, OF sample_parse_garbage])

section \<open>Properties of startQuiz\<close>

lemma ms_range: "\<bar>ms c\<bar> \<le> 8640000000000000"
  using ms [of c] by simp

lemma ms_Time [simp]: "\<bar>t\<bar> \<le> 8640000000000000 \<Longrightarrow> ms (Time t) = t"
  by (simp add: Time_inverse)

lemma timeClip_Fin: "\<bar>t\<bar> \<le> 8640000000000000 \<Longrightarrow> timeClip (Fin t) = Fin t"
  by (simp add: timeClip_def)

lemma timeClip_range: "timeClip v = Fin t \<Longrightarrow> v = Fin t \<and> \<bar>t\<bar> \<le> 8640000000000000"
  by (cases v) (simp_all add: timeClip_def split: if_splits)

lemma timeClip_far: "8640000000000000 < \<bar>t\<bar> \<Longrightarrow> timeClip (Fin t) = NaN"
  by (simp add: timeClip_def)

lemma parse_start_range:
  "parse_start parse field = Fin t \<Longrightarrow> \<bar>t\<bar> \<le> 8640000000000000"
  by (cases field)
     (auto simp: parse_start_def Let_def split: jsnum.splits dest: timeClip_range)

lemma timeLimitMs_of_Num: "timeLimitMs_of (Num n) = Fin (max 1 n * 60000)"
  by (simp add: timeLimitMs_of_def or_else_def)

lemma timeLimitMs_of_missing:
  "timeLimitMs_of Undefined = Fin 60000" "timeLimitMs_of Null = Fin 60000"
  by (simp_all add: timeLimitMs_of_def or_else_def)

lemma timeLimitMs_of_NonNumeric: "timeLimitMs_of NonNumeric = NaN"
  by (simp add: timeLimitMs_of_def or_else_def)

lemma timeLimitMs_of_least: "timeLimitMs_of v = Fin L \<Longrightarrow> 60000 \<le> L"
  by (cases v) (auto simp: timeLimitMs_of_Num timeLimitMs_of_missing timeLimitMs_of_NonNumeric)

lemma tlm2_of_truthy: "truthy r \<Longrightarrow> tlm2_of r y = js_mul (Math_max (Fin 1) (Number r)) (Fin 60000)"
  by (simp add: tlm2_of_def or_else_def)

lemma tlm2_of_falsy:
  "\<not> truthy r \<Longrightarrow> tlm2_of r y = (if truthy y then timeLimitMs_of y else Fin 60000)"
  by (simp add: tlm2_of_def timeLimitMs_of_def or_else_def)

lemma tlm2_of_Num: "1 \<le> n \<Longrightarrow> tlm2_of (Num n) y = Fin (n * 60000)"
  by (simp add: tlm2_of_truthy)

lemma tlm2_of_least: "tlm2_of r y = Fin L \<Longrightarrow> 60000 \<le> L"
proof (cases "truthy r")
  case True
  assume "tlm2_of r y = Fin L"
  with True show ?thesis by (cases r) (auto simp: tlm2_of_truthy)
next
  case False
  assume "tlm2_of r y = Fin L"
  with False show ?thesis
    by (auto simp: tlm2_of_falsy split: if_splits dest: timeLimitMs_of_least)
qed

lemma detail_or_nonempty: "fallback \<noteq> [] \<Longrightarrow> detail_or d fallback \<noteq> []"
  by (simp add: detail_or_def split: option.splits)

lemma start_failed_error: "error (start_failed d s) \<noteq> []"
  by (simp add: start_failed_def detail_or_nonempty start_error_text_def)

lemma startQuiz_first_path:
  assumes "first_start w = Resolved (Some d1)" and "truthy_id (attempt_id d1)"
    and "quiz_reply w = Resolved (Some q)"
    and "parse_start parse (start_time d1) = Fin t"
    and "timeLimitMs_of (nullish (time_limit_minutes d1) (q_time_limit_minutes q)) = Fin L"
    and "ms (clock1 w) < t + L"
    and "\<bar>t + L\<bar> \<le> 8640000000000000"
  shows "startQuiz parse toISOString w ident s0 =
           (s0\<lparr>loading := False, error := '''', attemptId := attempt_id d1, quiz := Some q,
               endTime := Some (toISOString (t + L)),
               answers := initialAnswers (questions q)\<rparr>,
            [PostStart ident, GetQuiz ident])"
  using assms by (simp add: startQuiz_def Let_def finish_start_def timeClip_Fin)

lemma startQuiz_first_path_far:
  assumes "first_start w = Resolved (Some d1)" and "truthy_id (attempt_id d1)"
    and "quiz_reply w = Resolved (Some q)"
    and "parse_start parse (start_time d1) = Fin t"
    and "timeLimitMs_of (nullish (time_limit_minutes d1) (q_time_limit_minutes q)) = Fin L"
    and "ms (clock1 w) < t + L"
    and "8640000000000000 < \<bar>t + L\<bar>"
  shows "startQuiz parse toISOString w ident s0 =
           (s0\<lparr>loading := False, error := start_error_text, attemptId := attempt_id d1,
               quiz := Some q\<rparr>,
            [PostStart ident, GetQuiz ident])"
  using assms
  by (simp add: startQuiz_def Let_def finish_start_def timeClip_far start_failed_def detail_or_def)

lemma startQuiz_retry_requests:
  assumes "first_start w = Resolved (Some d1)" and "truthy_id (attempt_id d1)"
    and "quiz_reply w = Resolved (Some q)"
    and "parse_start parse (start_time d1) = Fin t"
    and "timeLimitMs_of (nullish (time_limit_minutes d1) (q_time_limit_minutes q)) = Fin L"
    and "t + L \<le> ms (clock1 w)"
  shows "snd (startQuiz parse toISOString w ident s0) =
           [PostStart ident, GetQuiz ident, PostStart ident]"
  using assms by (simp add: startQuiz_def Let_def split: reply.splits option.splits)

lemma startQuiz_retry_path:
  assumes "first_start w = Resolved (Some d1)" and "truthy_id (attempt_id d1)"
    and "quiz_reply w = Resolved (Some q)"
    and "parse_start parse (start_time d1) = Fin t"
    and "timeLimitMs_of (nullish (time_limit_minutes d1) (q_time_limit_minutes q)) = Fin L"
    and "t + L \<le> ms (clock1 w)"
    and "second_start w = Resolved (Some d2)"
    and "parse_start parse (start_time d2) = Fin t2"
    and "tlm2_of (time_limit_minutes d2)
           (nullish (time_limit_minutes d1) (q_time_limit_minutes q)) = Fin L2"
    and "\<bar>t2 + L2\<bar> \<le> 8640000000000000"
  shows "startQuiz parse toISOString w ident s0 =
           (s0\<lparr>loading := False, error := '''', attemptId := attempt_id d2, quiz := Some q,
               endTime := Some (toISOString (t2 + L2)),
               answers := initialAnswers (questions q)\<rparr>,
            [PostStart ident, GetQuiz ident, PostStart ident])"
  using assms by (simp add: startQuiz_def Let_def finish_start_def timeClip_Fin)

lemma finish_start_answers:
  "error s = [] \<Longrightarrow> error (finish_start toISOString dl q s) = [] \<Longrightarrow>
   answers (finish_start toISOString dl q s) = initialAnswers (questions q)"
  by (cases "timeClip dl") (simp_all add: finish_start_def start_failed_error)

lemma startQuiz_success_answers:
  assumes "quiz_reply w = Resolved (Some q)"
    and "error (fst (startQuiz parse toISOString w ident s0)) = []"
  shows "answers (fst (startQuiz parse toISOString w ident s0)) = initialAnswers (questions q)"
  using assms
  by (auto simp: startQuiz_def Let_def start_failed_error finish_start_answers
      split: reply.splits option.splits if_splits)

lemma sample_parse_start:
  "parse_start sample_parse (Text ''1970-01-01T00:00:10.000'') = Fin 10000"
  by (simp add: parse_start_def sample_parse_def withZ_def endsWithZ_def timeClip_def)

lemma sample_first_start: "first_start sample_world = Resolved (Some sample_start)"
  by (simp add: sample_world_def)

lemma sample_quiz_reply: "quiz_reply sample_world = Resolved (Some sample_quiz)"
  by (simp add: sample_world_def)

section \<open>The initial answer set\<close>

lemma obj_put_keys: "fst ` set (obj_put k v es) = insert k (fst ` set es)"
  by (induction k v es rule: obj_put.induct) (simp_all add: insert_commute)

lemma obj_put_ordered:
  "sorted_wrt (\<lambda>a b. a \<noteq> b \<and> (array_index b \<longrightarrow> array_index a \<and> a < b)) (map fst es) \<Longrightarrow>
   sorted_wrt (\<lambda>a b. a \<noteq> b \<and> (array_index b \<longrightarrow> array_index a \<and> a < b))
     (map fst (obj_put k v es))"
proof (induction es)
  case Nil
  then show ?case by simp
next
  case (Cons e es)
  obtain k' v' where e: "e = (k', v')" by (cases e)
  from Cons.prems e
  have above: "\<forall>x \<in> fst ` set es. k' \<noteq> x \<and> (array_index x \<longrightarrow> array_index k' \<and> k' < x)"
    and rest: "sorted_wrt (\<lambda>a b. a \<noteq> b \<and> (array_index b \<longrightarrow> array_index a \<and> a < b)) (map fst es)"
    by auto
  show ?case
  proof (cases "k = k'")
    case True
    with Cons.prems e show ?thesis by simp
  next
    case False
    show ?thesis
    proof (cases "before k k'")
      case True
      with above False
      have "\<forall>x \<in> fst ` set es. k \<noteq> x \<and> (array_index x \<longrightarrow> array_index k \<and> k < x)"
        by (fastforce simp: before_def split: if_splits)
      moreover from True False have "k \<noteq> k' \<and> (array_index k' \<longrightarrow> array_index k \<and> k < k')"
        by (simp add: before_def split: if_splits)
      ultimately show ?thesis using True False Cons.prems e by auto
    next
      case later: False
      with False have "k' \<noteq> k \<and> (array_index k \<longrightarrow> array_index k' \<and> k' < k)"
        by (auto simp: before_def split: if_splits)
      with above
      have "\<forall>x \<in> fst ` set (obj_put k v es).
              k' \<noteq> x \<and> (array_index x \<longrightarrow> array_index k' \<and> k' < x)"
        by (auto simp: obj_put_keys)
      with later False e Cons.IH [OF rest] show ?thesis by auto
    qed
  qed
qed

lemma obj_put_values:
  "\<forall>e \<in> set es. snd e = Unanswered \<Longrightarrow> \<forall>e \<in> set (obj_put k Unanswered es). snd e = Unanswered"
  by (induction k Unanswered es rule: obj_put.induct) simp_all

lemma ordered_distinct:
  "sorted_wrt (\<lambda>a b. a \<noteq> b \<and> (array_index b \<longrightarrow> array_index a \<and> a < b)) (xs :: nat list) \<Longrightarrow>
   distinct xs"
  by (induction xs) auto

lemma foldl_initial_step:
  assumes "sorted_wrt (\<lambda>a b. a \<noteq> b \<and> (array_index b \<longrightarrow> array_index a \<and> a < b)) (map fst acc)"
    and "\<forall>e \<in> set acc. snd e = Unanswered"
  shows "sorted_wrt (\<lambda>a b. a \<noteq> b \<and> (array_index b \<longrightarrow> array_index a \<and> a < b))
           (map fst (foldl initial_step acc qs)) \<and>
         (\<forall>e \<in> set (foldl initial_step acc qs). snd e = Unanswered) \<and>
         fst ` set (foldl initial_step acc qs) =
           fst ` set acc \<union> {k. k \<noteq> 0 \<and> (\<exists>x \<in> set qs. qid x = Some k)}"
  using assms
proof (induction qs arbitrary: acc)
  case Nil
  then show ?case by simp
next
  case (Cons x qs)
  let ?acc = "initial_step acc x"
  have s: "sorted_wrt (\<lambda>a b. a \<noteq> b \<and> (array_index b \<longrightarrow> array_index a \<and> a < b)) (map fst ?acc)"
    using Cons.prems(1) by (simp add: initial_step_def obj_put_ordered split: option.splits)
  have v: "\<forall>e \<in> set ?acc. snd e = Unanswered"
    using Cons.prems(2) obj_put_values [of acc]
    by (simp add: initial_step_def split: option.splits)
  have k: "fst ` set ?acc = fst ` set acc \<union> {k. k \<noteq> 0 \<and> qid x = Some k}"
    by (auto simp: initial_step_def obj_put_keys split: option.splits)
  from Cons.IH [OF s v] k show ?case by auto
qed

lemma ragged_start:
  "startQuiz sample_parse sample_toISOString ragged_world ''5'' mounted =
     (mounted\<lparr>loading := False, error := '''', attemptId := Some 7,
        quiz := Some ragged_quiz, endTime := Some (sample_toISOString (10000 + 900000)),
        answers := initialAnswers (questions ragged_quiz)\<rparr>,
      [PostStart ''5'', GetQuiz ''5''])"
proof -
  have "startQuiz sample_parse sample_toISOString ragged_world ''5'' mounted =
     (mounted\<lparr>loading := False, error := '''', attemptId := attempt_id sample_start,
        quiz := Some ragged_quiz, endTime := Some (sample_toISOString (10000 + 900000)),
        answers := initialAnswers (questions ragged_quiz)\<rparr>,
      [PostStart ''5'', GetQuiz ''5''])"
    by (rule startQuiz_first_path)
       (simp_all add: ragged_world_def sample_world_def sample_start_def sample_parse_start
         timeLimitMs_of_Num ragged_quiz_def)
  then show ?thesis by (simp add: sample_start_def)
qed

text \<open>
  C10. After an acquisition that ends without error, the answer set holds one
  entry for each truthy id among the questions of the fetched quiz and no other
  entry: its keys are distinct, they are exactly the ids that are present and
  not 0, and every value is \<open>null\<close>. Questions without id, or with the falsy
  id, add nothing, and a \<open>questions\<close> field that is no array gives the empty
  answer set.
\<close>

theorem initial_answer_set:
  assumes "quiz_reply w = Resolved (Some q)"
    and "error (fst (startQuiz parse toISOString w ident s0)) = []"
  shows "distinct (map fst (answers (fst (startQuiz parse toISOString w ident s0)))) \<and>
         (\<forall>e \<in> set (answers (fst (startQuiz parse toISOString w ident s0))).
            snd e = Unanswered) \<and>
         (\<forall>qs. questions q = Some qs \<longrightarrow>
            fst ` set (answers (fst (startQuiz parse toISOString w ident s0))) =
              {k. k \<noteq> 0 \<and> (\<exists>x \<in> set qs. qid x = Some k)}) \<and>
         (questions q = None \<longrightarrow> answers (fst (startQuiz parse toISOString w ident s0)) = [])"
proof -
  let ?a = "answers (fst (startQuiz parse toISOString w ident s0))"
  have a: "?a = initialAnswers (questions q)"
    using assms by (rule startQuiz_success_answers)
  have f: "\<And>qs. sorted_wrt (\<lambda>a b. a \<noteq> b \<and> (array_index b \<longrightarrow> array_index a \<and> a < b))
           (map fst (foldl initial_step [] qs)) \<and>
         (\<forall>e \<in> set (foldl initial_step [] qs). snd e = Unanswered) \<and>
         fst ` set (foldl initial_step [] qs) =
           {k. k \<noteq> 0 \<and> (\<exists>x \<in> set qs. qid x = Some k)}"
    using foldl_initial_step [of "[]"] by simp
  have d: "distinct (map fst ?a)"
    unfolding a initialAnswers_def using f ordered_distinct by blast
  have u: "\<forall>e \<in> set ?a. snd e = Unanswered"
    unfolding a initialAnswers_def using f by blast
  have k: "\<forall>qs. questions q = Some qs \<longrightarrow>
            fst ` set ?a = {k. k \<noteq> 0 \<and> (\<exists>x \<in> set qs. qid x = Some k)}"
    unfolding a initialAnswers_def using f by simp
  have n: "questions q = None \<longrightarrow> ?a = []"
    unfolding a initialAnswers_def by simp
  from d u k n show ?thesis by blast
qed

theorem initial_answer_set_witness:
  "error (fst (startQuiz sample_parse sample_toISOString ragged_world ''5'' mounted)) = [] \<and>
   answers (fst (startQuiz sample_parse sample_toISOString ragged_world ''5'' mounted)) =
     [(1, Unanswered), (2, Unanswered)] \<and>
   distinct (map fst (answers (fst (startQuiz sample_parse sample_toISOString ragged_world ''5'' mounted))))"
proof -
  have q: "quiz_reply ragged_world = Resolved (Some ragged_quiz)"
    by (simp add: ragged_world_def)
  have a: "initialAnswers (questions ragged_quiz) = [(1, Unanswered), (2, Unanswered)]"
    by (simp add: initialAnswers_def ragged_quiz_def initial_step_def before_def array_index_def)
  have e: "error (fst (startQuiz sample_parse sample_toISOString ragged_world ''5'' mounted)) = []"
    by (simp add: ragged_start)
  from initial_answer_set [OF q e] e show ?thesis
    by (simp add: ragged_start a)
qed

section \<open>The deadline\<close>

lemma run_keeps_deadline:
  assumes "parse (withZ e) = Fin D" and "now < D" and "D - now \<le> 2147483647"
    and "run parse e sch (Timer_effect parse e now Timer_initial) = Some ts"
    and "filter is_Expired (trace ts) = []"
  shows "pendingTimeout ts = Some D"
proof -
  have "Timer_effect parse e now Timer_initial =
          Timer_initial\<lparr>pendingInterval := Some (now + 1000), pendingTimeout := Some D,
             clock := now, timeLeft := Fin ((D - now) div 1000)\<rparr>"
    using assms(1,2,3) by (rule Timer_effect_future)
  then have "timer_inv D (Timer_effect parse e now Timer_initial)"
    by (simp add: timer_inv_def Timer_initial_def)
  from run_inv [OF this assms(4)] assms(5) show ?thesis
    by (simp add: timer_inv_def)
qed

lemma endless_start:
  "startQuiz sample_parse sample_toISOString endless_world ''5'' mounted =
     (mounted\<lparr>loading := False, error := start_error_text, attemptId := Some 7,
        quiz := Some sample_quiz\<rparr>,
      [PostStart ''5'', GetQuiz ''5''])"
proof -
  have "startQuiz sample_parse sample_toISOString endless_world ''5'' mounted =
     (mounted\<lparr>loading := False, error := start_error_text,
        attemptId := attempt_id (sample_start\<lparr>time_limit_minutes := Num 144000000001\<rparr>),
        quiz := Some sample_quiz\<rparr>,
      [PostStart ''5'', GetQuiz ''5''])"
    by (rule startQuiz_first_path_far [where t = 10000 and L = "144000000001 * 60000"])
       (simp_all add: endless_world_def sample_world_def sample_start_def sample_parse_start
         timeLimitMs_of_Num sample_quiz_def)
  then show ?thesis by (simp add: sample_start_def)
qed

text \<open>
  C8, as the code has it. When the start time of the first response parses to
  \<open>t\<close>, the time limit in force is a whole number \<open>n\<close> of at least 1, and
  \<open>t + n * 60000\<close> is still a date (at most 8.64e15 ms after the epoch), then:
  if time remains, the end time stored is the timestamp \<open>t + n * 60000\<close>,
  after the two requests of one acquisition; if none remains, and the retried
  response has start time \<open>t2\<close> and limit \<open>n2\<close> of at least 1 with
  \<open>t2 + n2 * 60000\<close> still a date, the end time stored is
  \<open>t2 + n2 * 60000\<close>, recomputed from the new attempt alone; and a timer
  started from the stored end time, no more than \<open>2^31 - 1\<close> ms before it,
  keeps its timeout due at exactly \<open>t + n * 60000\<close> after any number of
  display ticks, as long as it has not expired.
\<close>

theorem deadline_exact:
  assumes "first_start w = Resolved (Some d1)" and "truthy_id (attempt_id d1)"
    and "quiz_reply w = Resolved (Some q)"
    and "parse_start parse (start_time d1) = Fin t"
    and "nullish (time_limit_minutes d1) (q_time_limit_minutes q) = Num n"
    and "1 \<le> n"
    and "t + n * 60000 \<le> 8640000000000000"
  shows "(ms (clock1 w) < t + n * 60000 \<longrightarrow>
            endTime (fst (startQuiz parse toISOString w ident s0)) =
              Some (toISOString (t + n * 60000)) \<and>
            snd (startQuiz parse toISOString w ident s0) = [PostStart ident, GetQuiz ident]) \<and>
         (\<forall>d2 t2 n2.
            t + n * 60000 \<le> ms (clock1 w) \<and> second_start w = Resolved (Some d2) \<and>
            parse_start parse (start_time d2) = Fin t2 \<and>
            time_limit_minutes d2 = Num n2 \<and> 1 \<le> n2 \<and>
            t2 + n2 * 60000 \<le> 8640000000000000 \<longrightarrow>
            endTime (fst (startQuiz parse toISOString w ident s0)) =
              Some (toISOString (t2 + n2 * 60000))) \<and>
         (\<forall>now sch ts.
            parse (withZ (toISOString (t + n * 60000))) = Fin (t + n * 60000) \<and>
            now < t + n * 60000 \<and> t + n * 60000 - now \<le> 2147483647 \<and>
            run parse (toISOString (t + n * 60000)) sch
              (Timer_effect parse (toISOString (t + n * 60000)) now Timer_initial) = Some ts \<and>
            filter is_Expired (trace ts) = [] \<longrightarrow>
            pendingTimeout ts = Some (t + n * 60000))"
proof -
  let ?R = "startQuiz parse toISOString w ident s0"
  have L: "timeLimitMs_of (nullish (time_limit_minutes d1) (q_time_limit_minutes q)) =
             Fin (n * 60000)"
    using assms(5,6) by (simp add: timeLimitMs_of_Num max_def)
  from parse_start_range [OF assms(4)] assms(6,7)
  have range: "\<bar>t + n * 60000\<bar> \<le> 8640000000000000" by arith
  have first: "ms (clock1 w) < t + n * 60000 \<longrightarrow>
            endTime (fst ?R) = Some (toISOString (t + n * 60000)) \<and>
            snd ?R = [PostStart ident, GetQuiz ident]"
  proof
    assume "ms (clock1 w) < t + n * 60000"
    from startQuiz_first_path [OF assms(1-4) L this range]
    show "endTime (fst ?R) = Some (toISOString (t + n * 60000)) \<and>
            snd ?R = [PostStart ident, GetQuiz ident]"
      by simp
  qed
  have retry: "\<forall>d2 t2 n2.
            t + n * 60000 \<le> ms (clock1 w) \<and> second_start w = Resolved (Some d2) \<and>
            parse_start parse (start_time d2) = Fin t2 \<and>
            time_limit_minutes d2 = Num n2 \<and> 1 \<le> n2 \<and>
            t2 + n2 * 60000 \<le> 8640000000000000 \<longrightarrow>
            endTime (fst ?R) = Some (toISOString (t2 + n2 * 60000))"
  proof (intro allI impI)
    fix d2 t2 n2
    assume h: "t + n * 60000 \<le> ms (clock1 w) \<and> second_start w = Resolved (Some d2) \<and>
            parse_start parse (start_time d2) = Fin t2 \<and>
            time_limit_minutes d2 = Num n2 \<and> 1 \<le> n2 \<and>
            t2 + n2 * 60000 \<le> 8640000000000000"
    then have L2: "tlm2_of (time_limit_minutes d2)
           (nullish (time_limit_minutes d1) (q_time_limit_minutes q)) = Fin (n2 * 60000)"
      by (simp add: tlm2_of_Num)
    from h have c: "t + n * 60000 \<le> ms (clock1 w)" and s: "second_start w = Resolved (Some d2)"
      and p: "parse_start parse (start_time d2) = Fin t2" by simp_all
    from parse_start_range [OF p] h
    have range2: "\<bar>t2 + n2 * 60000\<bar> \<le> 8640000000000000" by arith
    from startQuiz_retry_path [OF assms(1-4) L c s p L2 range2]
    show "endTime (fst ?R) = Some (toISOString (t2 + n2 * 60000))" by simp
  qed
  have ticks: "\<forall>now sch ts.
            parse (withZ (toISOString (t + n * 60000))) = Fin (t + n * 60000) \<and>
            now < t + n * 60000 \<and> t + n * 60000 - now \<le> 2147483647 \<and>
            run parse (toISOString (t + n * 60000)) sch
              (Timer_effect parse (toISOString (t + n * 60000)) now Timer_initial) = Some ts \<and>
            filter is_Expired (trace ts) = [] \<longrightarrow>
            pendingTimeout ts = Some (t + n * 60000)"
    using run_keeps_deadline by blast
  from first retry ticks show ?thesis by blast
qed

theorem deadline_exact_witness:
  "endTime (fst (startQuiz sample_parse sample_toISOString sample_world ''5'' mounted)) =
     Some ''1970-01-01T00:15:10.000Z'' \<and>
   sample_toISOString (10000 + 15 * 60000) = ''1970-01-01T00:15:10.000Z'' \<and>
   snd (startQuiz sample_parse sample_toISOString sample_world ''5'' mounted) =
     [PostStart ''5'', GetQuiz ''5'']"
proof -
  have a: "truthy_id (attempt_id sample_start)" by (simp add: sample_start_def)
  have p: "parse_start sample_parse (start_time sample_start) = Fin 10000"
    by (simp add: sample_start_def sample_parse_start)
  have n: "nullish (time_limit_minutes sample_start) (q_time_limit_minutes sample_quiz) = Num 15"
    by (simp add: sample_start_def)
  have one: "(1::int) \<le> 15" by simp
  have r: "(10000::int) + 15 * 60000 \<le> 8640000000000000" by simp
  have c: "ms (clock1 sample_world) < 10000 + 15 * 60000" by (simp add: sample_world_def)
  have i: "sample_toISOString (10000 + 15 * 60000) = ''1970-01-01T00:15:10.000Z''"
    by (simp add: sample_toISOString_def)
  from deadline_exact [OF sample_first_start a sample_quiz_reply p n one r,
      of sample_toISOString "''5''" mounted] c i
  show ?thesis by simp
qed

theorem deadline_exact_counterexample:
  "first_start endless_world =
     Resolved (Some (sample_start\<lparr>time_limit_minutes := Num 144000000001\<rparr>)) \<and>
   parse_start sample_parse
     (start_time (sample_start\<lparr>time_limit_minutes := Num 144000000001\<rparr>)) = Fin 10000 \<and>
   (1::int) \<le> 144000000001 \<and>
   endTime (fst (startQuiz sample_parse sample_toISOString endless_world ''5'' mounted)) = None \<and>
   error (fst (startQuiz sample_parse sample_toISOString endless_world ''5'' mounted)) =
     ''Failed to start quiz. Please try again.''"
proof -
  have a: "first_start endless_world =
     Resolved (Some (sample_start\<lparr>time_limit_minutes := Num 144000000001\<rparr>))"
    by (simp add: endless_world_def)
  have b: "parse_start sample_parse
     (start_time (sample_start\<lparr>time_limit_minutes := Num 144000000001\<rparr>)) = Fin 10000"
    by (simp add: sample_start_def sample_parse_start)
  have c: "endTime (fst (startQuiz sample_parse sample_toISOString endless_world ''5'' mounted)) =
             None"
    unfolding endless_start by (simp add: mounted_def)
  have d: "error (fst (startQuiz sample_parse sample_toISOString endless_world ''5'' mounted)) =
             ''Failed to start quiz. Please try again.''"
    unfolding endless_start by (simp add: start_error_text_def)
  from a b c d show ?thesis by simp
qed

section \<open>The lower bound of the time limit\<close>

lemma timeLimitMs_of_floor:
  "(\<exists>n\<le>0. v = Num n) \<or> v = Undefined \<or> v = Null \<Longrightarrow> timeLimitMs_of v = Fin 60000"
  by (auto simp: timeLimitMs_of_Num timeLimitMs_of_missing max_def)

lemma unlimited_start:
  "startQuiz sample_parse sample_toISOString unlimited_world ''5'' mounted =
     (mounted\<lparr>loading := False, error := '''', attemptId := Some 7,
        quiz := Some sample_quiz, endTime := Some ''1970-01-01T00:15:10.000Z'',
        answers := initialAnswers (questions sample_quiz)\<rparr>,
      [PostStart ''5'', GetQuiz ''5''])"
proof -
  have "startQuiz sample_parse sample_toISOString unlimited_world ''5'' mounted =
     (mounted\<lparr>loading := False, error := '''',
        attemptId := attempt_id (sample_start\<lparr>time_limit_minutes := Undefined\<rparr>),
        quiz := Some sample_quiz, endTime := Some (sample_toISOString (10000 + 900000)),
        answers := initialAnswers (questions sample_quiz)\<rparr>,
      [PostStart ''5'', GetQuiz ''5''])"
    by (rule startQuiz_first_path)
       (simp_all add: unlimited_world_def sample_world_def sample_start_def sample_parse_start
         timeLimitMs_of_Num sample_quiz_def)
  then show ?thesis by (simp add: sample_start_def sample_toISOString_def)
qed

text \<open>
  C9, as the code has it. The time limit in force, \<open>eff\<close>, is that of the start
  response, or that of the quiz when the start response has none (\<open>??\<close>).
  When \<open>eff\<close> is zero, negative or missing, the deadline is the start time plus
  60000 ms; when the start response has no limit and the quiz has the limit
  \<open>m\<close> of at least 1, the deadline is the start time plus \<open>m * 60000\<close> ms.
  A deadline is stored when it is still a date, at most 8.64e15 ms after the
  epoch. Every limit that is computed is at least 60000 ms, on the first
  response and on the retried one, so a stored deadline is never earlier than
  one minute after the start time it was computed from. On the retry a missing
  or zero limit falls back to \<open>eff\<close> before the clamp (to one minute when
  \<open>eff\<close> is falsy too), and a negative one is clamped to one minute.
\<close>

theorem time_limit_clamped:
  assumes "first_start w = Resolved (Some d1)" and "truthy_id (attempt_id d1)"
    and "quiz_reply w = Resolved (Some q)"
    and "parse_start parse (start_time d1) = Fin t"
    and "eff = nullish (time_limit_minutes d1) (q_time_limit_minutes q)"
  shows "((time_limit_minutes d1 = Undefined \<or> time_limit_minutes d1 = Null) \<longrightarrow>
            eff = q_time_limit_minutes q) \<and>
         (((\<exists>n\<le>0. eff = Num n) \<or> eff = Undefined \<or> eff = Null) \<and>
          ms (clock1 w) < t + 60000 \<and> t + 60000 \<le> 8640000000000000 \<longrightarrow>
            endTime (fst (startQuiz parse toISOString w ident s0)) =
              Some (toISOString (t + 60000))) \<and>
         (\<forall>m. (time_limit_minutes d1 = Undefined \<or> time_limit_minutes d1 = Null) \<and>
              q_time_limit_minutes q = Num m \<and> 1 \<le> m \<and> ms (clock1 w) < t + m * 60000 \<and>
              t + m * 60000 \<le> 8640000000000000 \<longrightarrow>
            endTime (fst (startQuiz parse toISOString w ident s0)) =
              Some (toISOString (t + m * 60000))) \<and>
         (\<forall>L. timeLimitMs_of eff = Fin L \<longrightarrow>
            60000 \<le> L \<and>
            (ms (clock1 w) < t + L \<and> t + L \<le> 8640000000000000 \<longrightarrow>
               endTime (fst (startQuiz parse toISOString w ident s0)) =
                 Some (toISOString (t + L)))) \<and>
         (\<forall>L d2 t2 L2.
            timeLimitMs_of eff = Fin L \<and> t + L \<le> ms (clock1 w) \<and>
            second_start w = Resolved (Some d2) \<and>
            parse_start parse (start_time d2) = Fin t2 \<and>
            tlm2_of (time_limit_minutes d2) eff = Fin L2 \<and>
            t2 + L2 \<le> 8640000000000000 \<longrightarrow>
            60000 \<le> L2 \<and>
            endTime (fst (startQuiz parse toISOString w ident s0)) =
              Some (toISOString (t2 + L2)) \<and>
            (\<not> truthy (time_limit_minutes d2) \<and> truthy eff \<longrightarrow> L2 = L) \<and>
            (\<not> truthy (time_limit_minutes d2) \<and> \<not> truthy eff \<longrightarrow> L2 = 60000) \<and>
            ((\<exists>n2<0. time_limit_minutes d2 = Num n2) \<longrightarrow> L2 = 60000))"
proof -
  let ?R = "startQuiz parse toISOString w ident s0"
  note first = startQuiz_first_path [OF assms(1-4), folded assms(5)]
  note retry = startQuiz_retry_path [OF assms(1-4), folded assms(5)]
  note low = parse_start_range [OF assms(4)]
  have fallback: "(time_limit_minutes d1 = Undefined \<or> time_limit_minutes d1 = Null) \<longrightarrow>
            eff = q_time_limit_minutes q"
    using assms(5) by auto
  have general: "\<forall>L. timeLimitMs_of eff = Fin L \<longrightarrow>
            60000 \<le> L \<and>
            (ms (clock1 w) < t + L \<and> t + L \<le> 8640000000000000 \<longrightarrow>
               endTime (fst ?R) = Some (toISOString (t + L)))"
  proof (intro allI impI conjI)
    fix L
    assume L: "timeLimitMs_of eff = Fin L"
    then show least: "60000 \<le> L" by (rule timeLimitMs_of_least)
    assume h: "ms (clock1 w) < t + L \<and> t + L \<le> 8640000000000000"
    then have c: "ms (clock1 w) < t + L" by simp
    from low least h have r: "\<bar>t + L\<bar> \<le> 8640000000000000" by arith
    from first [OF L c r] show "endTime (fst ?R) = Some (toISOString (t + L))" by simp
  qed
  have floor: "((\<exists>n\<le>0. eff = Num n) \<or> eff = Undefined \<or> eff = Null) \<and>
          ms (clock1 w) < t + 60000 \<and> t + 60000 \<le> 8640000000000000 \<longrightarrow>
            endTime (fst ?R) = Some (toISOString (t + 60000))"
    using general timeLimitMs_of_floor [of eff] by blast
  have quiz_limit: "\<forall>m. (time_limit_minutes d1 = Undefined \<or> time_limit_minutes d1 = Null) \<and>
              q_time_limit_minutes q = Num m \<and> 1 \<le> m \<and> ms (clock1 w) < t + m * 60000 \<and>
              t + m * 60000 \<le> 8640000000000000 \<longrightarrow>
            endTime (fst ?R) = Some (toISOString (t + m * 60000))"
  proof (intro allI impI)
    fix m
    assume h: "(time_limit_minutes d1 = Undefined \<or> time_limit_minutes d1 = Null) \<and>
              q_time_limit_minutes q = Num m \<and> 1 \<le> m \<and> ms (clock1 w) < t + m * 60000 \<and>
              t + m * 60000 \<le> 8640000000000000"
    with fallback have "eff = Num m" by simp
    with h have "timeLimitMs_of eff = Fin (m * 60000)" by (simp add: timeLimitMs_of_Num max_def)
    with general h show "endTime (fst ?R) = Some (toISOString (t + m * 60000))" by blast
  qed
  have second: "\<forall>L d2 t2 L2.
            timeLimitMs_of eff = Fin L \<and> t + L \<le> ms (clock1 w) \<and>
            second_start w = Resolved (Some d2) \<and>
            parse_start parse (start_time d2) = Fin t2 \<and>
            tlm2_of (time_limit_minutes d2) eff = Fin L2 \<and>
            t2 + L2 \<le> 8640000000000000 \<longrightarrow>
            60000 \<le> L2 \<and>
            endTime (fst ?R) = Some (toISOString (t2 + L2)) \<and>
            (\<not> truthy (time_limit_minutes d2) \<and> truthy eff \<longrightarrow> L2 = L) \<and>
            (\<not> truthy (time_limit_minutes d2) \<and> \<not> truthy eff \<longrightarrow> L2 = 60000) \<and>
            ((\<exists>n2<0. time_limit_minutes d2 = Num n2) \<longrightarrow> L2 = 60000)"
  proof (intro allI impI)
    fix L d2 t2 L2
    assume h: "timeLimitMs_of eff = Fin L \<and> t + L \<le> ms (clock1 w) \<and>
            second_start w = Resolved (Some d2) \<and>
            parse_start parse (start_time d2) = Fin t2 \<and>
            tlm2_of (time_limit_minutes d2) eff = Fin L2 \<and>
            t2 + L2 \<le> 8640000000000000"
    then have L: "timeLimitMs_of eff = Fin L" and c: "t + L \<le> ms (clock1 w)"
      and s: "second_start w = Resolved (Some d2)"
      and p: "parse_start parse (start_time d2) = Fin t2"
      and L2: "tlm2_of (time_limit_minutes d2) eff = Fin L2"
      and up: "t2 + L2 \<le> 8640000000000000" by simp_all
    have a: "60000 \<le> L2" using L2 by (rule tlm2_of_least)
    from parse_start_range [OF p] a up have r: "\<bar>t2 + L2\<bar> \<le> 8640000000000000" by arith
    have b: "endTime (fst ?R) = Some (toISOString (t2 + L2))"
      using retry [OF L c s p L2 r] by simp
    have d: "\<not> truthy (time_limit_minutes d2) \<and> truthy eff \<longrightarrow> L2 = L"
      using L L2 by (auto simp: tlm2_of_falsy)
    have e: "\<not> truthy (time_limit_minutes d2) \<and> \<not> truthy eff \<longrightarrow> L2 = 60000"
      using L2 by (auto simp: tlm2_of_falsy)
    have f: "(\<exists>n2<0. time_limit_minutes d2 = Num n2) \<longrightarrow> L2 = 60000"
      using L2 by (auto simp: tlm2_of_truthy max_def)
    from a b d e f
    show "60000 \<le> L2 \<and>
            endTime (fst ?R) = Some (toISOString (t2 + L2)) \<and>
            (\<not> truthy (time_limit_minutes d2) \<and> truthy eff \<longrightarrow> L2 = L) \<and>
            (\<not> truthy (time_limit_minutes d2) \<and> \<not> truthy eff \<longrightarrow> L2 = 60000) \<and>
            ((\<exists>n2<0. time_limit_minutes d2 = Num n2) \<longrightarrow> L2 = 60000)"
      by blast
  qed
  from fallback floor quiz_limit general second show ?thesis by blast
qed

theorem time_limit_clamped_counterexample:
  "first_start unlimited_world =
     Resolved (Some (sample_start\<lparr>time_limit_minutes := Undefined\<rparr>)) \<and>
   parse_start sample_parse (start_time (sample_start\<lparr>time_limit_minutes := Undefined\<rparr>)) =
     Fin 10000 \<and>
   endTime (fst (startQuiz sample_parse sample_toISOString unlimited_world ''5'' mounted)) =
     Some (sample_toISOString (10000 + 15 * 60000)) \<and>
   endTime (fst (startQuiz sample_parse sample_toISOString unlimited_world ''5'' mounted)) \<noteq>
     Some (sample_toISOString (10000 + 60000))"
proof -
  have a: "first_start unlimited_world =
     Resolved (Some (sample_start\<lparr>time_limit_minutes := Undefined\<rparr>))"
    by (simp add: unlimited_world_def)
  have b: "parse_start sample_parse (start_time (sample_start\<lparr>time_limit_minutes := Undefined\<rparr>)) =
     Fin 10000"
    by (simp add: sample_start_def sample_parse_start)
  have c: "sample_toISOString (10000 + 15 * 60000) = ''1970-01-01T00:15:10.000Z''"
    "sample_toISOString (10000 + 60000) = ''1970-01-01T00:01:10.000Z''"
    by (simp_all add: sample_toISOString_def)
  show ?thesis unfolding c using a b by (simp add: unlimited_start)
qed

theorem time_limit_clamped_witness:
  "nullish (time_limit_minutes (sample_start\<lparr>time_limit_minutes := Num 0\<rparr>))
     (q_time_limit_minutes sample_quiz) = Num 0 \<and>
   endTime (fst (startQuiz sample_parse sample_toISOString zero_limit_world ''5'' mounted)) =
     Some ''1970-01-01T00:01:10.000Z'' \<and>
   sample_toISOString (10000 + 60000) = ''1970-01-01T00:01:10.000Z''"
proof -
  let ?d = "sample_start\<lparr>time_limit_minutes := Num 0\<rparr>"
  have f: "first_start zero_limit_world = Resolved (Some ?d)"
    by (simp add: zero_limit_world_def)
  have a: "truthy_id (attempt_id ?d)" by (simp add: sample_start_def)
  have q: "quiz_reply zero_limit_world = Resolved (Some sample_quiz)"
    by (simp add: zero_limit_world_def sample_world_def)
  have p: "parse_start sample_parse (start_time ?d) = Fin 10000"
    by (simp add: sample_start_def sample_parse_start)
  have e: "Num 0 = nullish (time_limit_minutes ?d) (q_time_limit_minutes sample_quiz)"
    by simp
  have z: "\<exists>n\<le>0. Num 0 = Num n" by simp
  have c: "ms (clock1 zero_limit_world) < 10000 + 60000" by (simp add: zero_limit_world_def)
  have r: "(10000::int) + 60000 \<le> 8640000000000000" by simp
  have i: "sample_toISOString (10000 + 60000) = ''1970-01-01T00:01:10.000Z''"
    by (simp add: sample_toISOString_def)
  from time_limit_clamped [OF f a q p e, of sample_toISOString "''5''" mounted] z c r
  have "endTime (fst (startQuiz sample_parse sample_toISOString zero_limit_world ''5'' mounted)) =
          Some (sample_toISOString (10000 + 60000))"
    by blast
  with i show ?thesis by simp
qed

text \<open>
  A limit that \<open>Number\<close> turns into \<open>NaN\<close> passes through \<open>Math.max\<close> as
  \<open>NaN\<close>: no deadline is stored and the acquisition ends with the error
  message.
\<close>

lemma non_numeric_limit_fails:
  assumes "first_start w = Resolved (Some d1)" and "truthy_id (attempt_id d1)"
    and "quiz_reply w = Resolved (Some q)"
    and "nullish (time_limit_minutes d1) (q_time_limit_minutes q) = NonNumeric"
  shows "error (fst (startQuiz parse toISOString w ident s0)) = start_error_text \<and>
         endTime (fst (startQuiz parse toISOString w ident s0)) = endTime s0 \<and>
         snd (startQuiz parse toISOString w ident s0) = [PostStart ident, GetQuiz ident]"
proof -
  have "js_add (parse_start parse (start_time d1)) (timeLimitMs_of NonNumeric) = NaN"
    by (cases "parse_start parse (start_time d1)") (simp_all add: timeLimitMs_of_NonNumeric)
  with assms show ?thesis
    by (simp add: startQuiz_def Let_def finish_start_def start_failed_def detail_or_def
        timeClip_def)
qed

section \<open>The stale attempt\<close>

lemma js_le0_remaining:
  assumes "js_le0 (js_sub (js_add a b) (Fin c))"
  obtains x y where "a = Fin x" and "b = Fin y" and "x + y \<le> c"
  using assms by (cases a; cases b) simp_all

lemma stale_start:
  "startQuiz sample_parse sample_toISOString stale_world ''5'' mounted =
     (mounted\<lparr>loading := False, error := '''', attemptId := Some 8,
        quiz := Some sample_quiz, endTime := Some ''1970-01-01T00:15:10.000Z'',
        answers := initialAnswers (questions sample_quiz)\<rparr>,
      [PostStart ''5'', GetQuiz ''5'', PostStart ''5''])"
proof -
  have "startQuiz sample_parse sample_toISOString stale_world ''5'' mounted =
     (mounted\<lparr>loading := False, error := '''',
        attemptId := attempt_id (sample_start\<lparr>attempt_id := Some 8\<rparr>),
        quiz := Some sample_quiz, endTime := Some (sample_toISOString (10000 + 900000)),
        answers := initialAnswers (questions sample_quiz)\<rparr>,
      [PostStart ''5'', GetQuiz ''5'', PostStart ''5''])"
    by (rule startQuiz_retry_path [where ?d1.0 = sample_start and t = 10000 and L = 900000])
       (simp_all add: stale_world_def sample_start_def sample_parse_start
         timeLimitMs_of_Num tlm2_of_Num sample_quiz_def)
  then show ?thesis by (simp add: sample_toISOString_def)
qed

text \<open>
  C2, as the code has it. When the first start response leaves no time
  (remaining time zero or negative), \<open>startQuiz\<close> sends exactly one more start
  request: the requests are start, quiz, start, and no submit. When the retried
  response leaves no time either, no error is surfaced: the error message stays
  empty, the retried attempt id and its deadline \<open>dl\<close>, already passed, are
  stored, and a timer started from that end time at any later moment arms
  neither its timeout nor its interval.
\<close>

theorem stale_retry:
  assumes "first_start w = Resolved (Some d1)" and "truthy_id (attempt_id d1)"
    and "quiz_reply w = Resolved (Some q)"
    and "eff = nullish (time_limit_minutes d1) (q_time_limit_minutes q)"
    and "js_le0 (js_sub (js_add (parse_start parse (start_time d1)) (timeLimitMs_of eff))
                  (Fin (ms (clock1 w))))"
  shows "snd (startQuiz parse toISOString w ident s0) =
           [PostStart ident, GetQuiz ident, PostStart ident] \<and>
         (\<forall>d2. second_start w = Resolved (Some d2) \<and>
            js_le0 (js_sub (js_add (parse_start parse (start_time d2))
                              (tlm2_of (time_limit_minutes d2) eff))
                      (Fin (ms (clock2 w)))) \<longrightarrow>
            (\<exists>dl. js_add (parse_start parse (start_time d2))
                     (tlm2_of (time_limit_minutes d2) eff) = Fin dl \<and>
                  dl \<le> ms (clock2 w) \<and>
                  error (fst (startQuiz parse toISOString w ident s0)) = [] \<and>
                  attemptId (fst (startQuiz parse toISOString w ident s0)) = attempt_id d2 \<and>
                  endTime (fst (startQuiz parse toISOString w ident s0)) =
                    Some (toISOString dl) \<and>
                  (\<forall>now ts. parse (withZ (toISOString dl)) = Fin dl \<and> ms (clock2 w) \<le> now \<longrightarrow>
                     pendingTimeout (Timer_effect parse (toISOString dl) now ts) = None \<and>
                     pendingInterval (Timer_effect parse (toISOString dl) now ts) = None)))"
proof -
  let ?R = "startQuiz parse toISOString w ident s0"
  from assms(5) obtain t L where t: "parse_start parse (start_time d1) = Fin t"
    and L: "timeLimitMs_of eff = Fin L" and c: "t + L \<le> ms (clock1 w)"
    by (rule js_le0_remaining)
  note L' = L [unfolded assms(4)]
  have reqs: "snd ?R = [PostStart ident, GetQuiz ident, PostStart ident]"
    using assms(1-3) t L' c by (rule startQuiz_retry_requests)
  have again: "\<forall>d2. second_start w = Resolved (Some d2) \<and>
            js_le0 (js_sub (js_add (parse_start parse (start_time d2))
                              (tlm2_of (time_limit_minutes d2) eff))
                      (Fin (ms (clock2 w)))) \<longrightarrow>
            (\<exists>dl. js_add (parse_start parse (start_time d2))
                     (tlm2_of (time_limit_minutes d2) eff) = Fin dl \<and>
                  dl \<le> ms (clock2 w) \<and>
                  error (fst ?R) = [] \<and>
                  attemptId (fst ?R) = attempt_id d2 \<and>
                  endTime (fst ?R) = Some (toISOString dl) \<and>
                  (\<forall>now ts. parse (withZ (toISOString dl)) = Fin dl \<and> ms (clock2 w) \<le> now \<longrightarrow>
                     pendingTimeout (Timer_effect parse (toISOString dl) now ts) = None \<and>
                     pendingInterval (Timer_effect parse (toISOString dl) now ts) = None))"
  proof (intro allI impI)
    fix d2
    assume h: "second_start w = Resolved (Some d2) \<and>
            js_le0 (js_sub (js_add (parse_start parse (start_time d2))
                              (tlm2_of (time_limit_minutes d2) eff))
                      (Fin (ms (clock2 w))))"
    then have s: "second_start w = Resolved (Some d2)" by simp
    from h obtain t2 L2 where t2: "parse_start parse (start_time d2) = Fin t2"
      and L2: "tlm2_of (time_limit_minutes d2) eff = Fin L2" and c2: "t2 + L2 \<le> ms (clock2 w)"
      by (blast elim: js_le0_remaining)
    note L2' = L2 [unfolded assms(4)]
    from parse_start_range [OF t2] tlm2_of_least [OF L2] c2 ms_range [of "clock2 w"]
    have r2: "\<bar>t2 + L2\<bar> \<le> 8640000000000000" by arith
    have R: "?R = (s0\<lparr>loading := False, error := '''', attemptId := attempt_id d2,
               quiz := Some q, endTime := Some (toISOString (t2 + L2)),
               answers := initialAnswers (questions q)\<rparr>,
            [PostStart ident, GetQuiz ident, PostStart ident])"
      using assms(1-3) t L' c s t2 L2' r2 by (rule startQuiz_retry_path)
    have timer: "\<forall>now ts. parse (withZ (toISOString (t2 + L2))) = Fin (t2 + L2) \<and>
                   ms (clock2 w) \<le> now \<longrightarrow>
                     pendingTimeout (Timer_effect parse (toISOString (t2 + L2)) now ts) = None \<and>
                     pendingInterval (Timer_effect parse (toISOString (t2 + L2)) now ts) = None"
    proof (intro allI impI)
      fix now ts
      assume a: "parse (withZ (toISOString (t2 + L2))) = Fin (t2 + L2) \<and> ms (clock2 w) \<le> now"
      with c2 have "t2 + L2 \<le> now" by simp
      with a show "pendingTimeout (Timer_effect parse (toISOString (t2 + L2)) now ts) = None \<and>
                     pendingInterval (Timer_effect parse (toISOString (t2 + L2)) now ts) = None"
        by (simp add: Timer_effect_past)
    qed
    have "js_add (parse_start parse (start_time d2)) (tlm2_of (time_limit_minutes d2) eff) =
            Fin (t2 + L2)"
      by (simp add: t2 L2)
    with c2 R timer
    show "\<exists>dl. js_add (parse_start parse (start_time d2))
                     (tlm2_of (time_limit_minutes d2) eff) = Fin dl \<and>
                  dl \<le> ms (clock2 w) \<and>
                  error (fst ?R) = [] \<and>
                  attemptId (fst ?R) = attempt_id d2 \<and>
                  endTime (fst ?R) = Some (toISOString dl) \<and>
                  (\<forall>now ts. parse (withZ (toISOString dl)) = Fin dl \<and> ms (clock2 w) \<le> now \<longrightarrow>
                     pendingTimeout (Timer_effect parse (toISOString dl) now ts) = None \<and>
                     pendingInterval (Timer_effect parse (toISOString dl) now ts) = None)"
      by (intro exI [of _ "t2 + L2"]) simp
  qed
  from reqs again show ?thesis by blast
qed

theorem stale_retry_counterexample:
  "js_le0 (js_sub (js_add (parse_start sample_parse (start_time sample_start))
                     (timeLimitMs_of (time_limit_minutes sample_start)))
             (Fin (ms (clock1 stale_world)))) \<and>
   js_le0 (js_sub (js_add (parse_start sample_parse (start_time sample_start))
                     (tlm2_of (time_limit_minutes sample_start) (time_limit_minutes sample_start)))
             (Fin (ms (clock2 stale_world)))) \<and>
   error (fst (startQuiz sample_parse sample_toISOString stale_world ''5'' mounted)) = [] \<and>
   endTime (fst (startQuiz sample_parse sample_toISOString stale_world ''5'' mounted)) =
     Some ''1970-01-01T00:15:10.000Z''"
proof -
  have a: "js_le0 (js_sub (js_add (parse_start sample_parse (start_time sample_start))
                     (timeLimitMs_of (time_limit_minutes sample_start)))
             (Fin (ms (clock1 stale_world))))"
    by (simp add: sample_start_def sample_parse_start timeLimitMs_of_Num stale_world_def)
  have b: "js_le0 (js_sub (js_add (parse_start sample_parse (start_time sample_start))
                     (tlm2_of (time_limit_minutes sample_start) (time_limit_minutes sample_start)))
             (Fin (ms (clock2 stale_world))))"
    by (simp add: sample_start_def sample_parse_start tlm2_of_Num stale_world_def)
  from a b show ?thesis by (simp add: stale_start)
qed

theorem stale_retry_witness:
  "snd (startQuiz sample_parse sample_toISOString stale_world ''5'' mounted) =
     [PostStart ''5'', GetQuiz ''5'', PostStart ''5''] \<and>
   error (fst (startQuiz sample_parse sample_toISOString stale_world ''5'' mounted)) = [] \<and>
   attemptId (fst (startQuiz sample_parse sample_toISOString stale_world ''5'' mounted)) = Some 8 \<and>
   endTime (fst (startQuiz sample_parse sample_toISOString stale_world ''5'' mounted)) =
     Some (sample_toISOString 910000) \<and>
   pendingTimeout (Timer_effect sample_parse (sample_toISOString 910000) 2000200 Timer_initial) =
     None \<and>
   pendingInterval (Timer_effect sample_parse (sample_toISOString 910000) 2000200 Timer_initial) =
     None"
proof -
  let ?d2 = "sample_start\<lparr>attempt_id := Some 8\<rparr>"
  let ?R = "startQuiz sample_parse sample_toISOString stale_world ''5'' mounted"
  have f: "first_start stale_world = Resolved (Some sample_start)"
    by (simp add: stale_world_def)
  have a: "truthy_id (attempt_id sample_start)" by (simp add: sample_start_def)
  have q: "quiz_reply stale_world = Resolved (Some sample_quiz)"
    by (simp add: stale_world_def)
  have e: "Num 15 = nullish (time_limit_minutes sample_start) (q_time_limit_minutes sample_quiz)"
    by (simp add: sample_start_def)
  have r: "js_le0 (js_sub (js_add (parse_start sample_parse (start_time sample_start))
                     (timeLimitMs_of (Num 15)))
             (Fin (ms (clock1 stale_world))))"
    by (simp add: sample_start_def sample_parse_start timeLimitMs_of_Num stale_world_def)
  have s: "second_start stale_world = Resolved (Some ?d2)"
    by (simp add: stale_world_def)
  have v: "js_add (parse_start sample_parse (start_time ?d2))
             (tlm2_of (time_limit_minutes ?d2) (Num 15)) = Fin 910000"
    by (simp add: sample_start_def sample_parse_start tlm2_of_Num)
  have r2: "js_le0 (js_sub (js_add (parse_start sample_parse (start_time ?d2))
                     (tlm2_of (time_limit_minutes ?d2) (Num 15)))
             (Fin (ms (clock2 stale_world))))"
    unfolding v by (simp add: stale_world_def)
  note inst = stale_retry [OF f a q e r, of sample_toISOString "''5''" mounted]
  from inst have reqs: "snd ?R = [PostStart ''5'', GetQuiz ''5'', PostStart ''5'']" by blast
  from inst s r2 obtain dl where
    dl: "js_add (parse_start sample_parse (start_time ?d2))
           (tlm2_of (time_limit_minutes ?d2) (Num 15)) = Fin dl"
    and err: "error (fst ?R) = []"
    and att: "attemptId (fst ?R) = attempt_id ?d2"
    and et: "endTime (fst ?R) = Some (sample_toISOString dl)"
    and tm: "\<forall>now ts. sample_parse (withZ (sample_toISOString dl)) = Fin dl \<and>
               ms (clock2 stale_world) \<le> now \<longrightarrow>
               pendingTimeout (Timer_effect sample_parse (sample_toISOString dl) now ts) = None \<and>
               pendingInterval (Timer_effect sample_parse (sample_toISOString dl) now ts) = None"
    by blast
  from dl v have d: "dl = 910000" by simp
  have p: "sample_parse (withZ (sample_toISOString 910000)) = Fin 910000"
    by (simp add: sample_parse_def sample_toISOString_def withZ_def endsWithZ_def)
  have c: "ms (clock2 stale_world) \<le> 2000200" by (simp add: stale_world_def)
  from tm p c have
    "pendingTimeout (Timer_effect sample_parse (sample_toISOString 910000) 2000200 Timer_initial) =
       None \<and>
     pendingInterval (Timer_effect sample_parse (sample_toISOString 910000) 2000200 Timer_initial) =
       None"
    unfolding d by blast
  with reqs err att et show ?thesis unfolding d by (simp add: sample_start_def)
qed

section \<open>Two submissions in succession\<close>




end
